theory Spec2Isabelle
  imports Main
begin

section \<open>JavaScript values and library functions used by proxy-server.js\<close>

text \<open>
  A JavaScript string is modelled by its UTF-8 byte sequence (\<open>string\<close>, a list of
  8-bit characters), which is also what the server writes onto a socket. Every pattern
  the server matches (\<open>/\<close>, the route prefixes, ASCII digits, \<open>.\<close>) is ASCII, and an
  ASCII byte never occurs inside a multi-byte UTF-8 sequence, so matching on bytes
  agrees with matching on UTF-16 code units.
\<close>

text \<open>\<open>s.startsWith(p)\<close>.\<close>

definition startsWith :: "string \<Rightarrow> string \<Rightarrow> bool" where
  "startsWith s p = (take (length p) s = p)"

text \<open>
  \<open>s.split(c)\<close> for a one-character separator: the pieces between the separators,
  never an empty array (\<open>''''.split('/')\<close> is \<open>['']\<close>).
\<close>

fun split :: "string \<Rightarrow> char \<Rightarrow> string list" where
  "split [] c = [[]]"
| "split (x # xs) c =
     (if x = c then [] # split xs c
      else (case split xs c of p # ps \<Rightarrow> (x # p) # ps))"

text \<open>
  \<open>Array.prototype.pop\<close>: removes and returns the last element; on an empty array
  it returns \<open>undefined\<close> (\<open>None\<close>) and leaves the array empty.
\<close>

definition pop :: "'a list \<Rightarrow> 'a option \<times> 'a list" where
  "pop xs = (if xs = [] then (None, []) else (Some (last xs), butlast xs))"

text \<open>\<open>xs.join(sep)\<close>.\<close>

fun join :: "string \<Rightarrow> string list \<Rightarrow> string" where
  "join sep [] = []"
| "join sep [x] = x"
| "join sep (x # y # ys) = x @ sep @ join sep (y # ys)"

text \<open>
  The regular expression \<open>/^\d{6}$/\<close> (no flags): \<open>\d\<close> is an ASCII digit, \<open>^\<close> and
  \<open>$\<close> match only at the two ends of the input, so \<open>test\<close> holds of exactly the
  strings of six ASCII digits.
\<close>

definition isDigit :: "char \<Rightarrow> bool" where
  "isDigit c = (c \<in> set ''0123456789'')"

definition test_d6 :: "string \<Rightarrow> bool" where
  "test_d6 s = (length s = 6 \<and> list_all isDigit s)"

subsection \<open>Numbers, \<open>parseInt\<close> and number-to-string\<close>

text \<open>
  The only number the server computes with is the result of \<open>parseInt(_, 10)\<close>: NaN,
  an integer, or an infinity (when the digits denote a value that rounds beyond the
  largest double). A finite result carries the integer the digits denote; the caller
  only tests its sign and compares it with 60 and 365, which rounding to the nearest
  double preserves.
\<close>

datatype number = NaN | Finite int | PosInfinity | NegInfinity

text \<open>
  White space and line terminators that \<open>parseInt\<close> skips, as UTF-8 byte sequences:
  TAB, LF, VT, FF, CR, SP, U+00A0, U+1680, U+2000 to U+200A, U+2028, U+2029, U+202F,
  U+205F, U+3000 and U+FEFF.
\<close>

definition whiteSpace :: "string list" where
  "whiteSpace =
     [[CHR 0x09], [CHR 0x0A], [CHR 0x0B], [CHR 0x0C], [CHR 0x0D], [CHR 0x20],
      [CHR 0xC2, CHR 0xA0], [CHR 0xE1, CHR 0x9A, CHR 0x80],
      [CHR 0xE2, CHR 0x80, CHR 0x80], [CHR 0xE2, CHR 0x80, CHR 0x81],
      [CHR 0xE2, CHR 0x80, CHR 0x82], [CHR 0xE2, CHR 0x80, CHR 0x83],
      [CHR 0xE2, CHR 0x80, CHR 0x84], [CHR 0xE2, CHR 0x80, CHR 0x85],
      [CHR 0xE2, CHR 0x80, CHR 0x86], [CHR 0xE2, CHR 0x80, CHR 0x87],
      [CHR 0xE2, CHR 0x80, CHR 0x88], [CHR 0xE2, CHR 0x80, CHR 0x89],
      [CHR 0xE2, CHR 0x80, CHR 0x8A], [CHR 0xE2, CHR 0x80, CHR 0xA8],
      [CHR 0xE2, CHR 0x80, CHR 0xA9], [CHR 0xE2, CHR 0x80, CHR 0xAF],
      [CHR 0xE2, CHR 0x81, CHR 0x9F], [CHR 0xE3, CHR 0x80, CHR 0x80],
      [CHR 0xEF, CHR 0xBB, CHR 0xBF]]"

text \<open>The input without the first white-space character it starts with, if any.\<close>

fun stripOne :: "string list \<Rightarrow> string \<Rightarrow> string option" where
  "stripOne [] s = None"
| "stripOne (p # ps) s =
     (if p \<noteq> [] \<and> startsWith s p then Some (drop (length p) s) else stripOne ps s)"

lemma startsWith_nonempty: "p \<noteq> [] \<Longrightarrow> startsWith s p \<Longrightarrow> s \<noteq> []"
  by (auto simp: startsWith_def)

lemma stripOne_shorter: "stripOne ps s = Some r \<Longrightarrow> length r < length s"
proof (induction ps)
  case Nil
  then show ?case by simp
next
  case (Cons p ps)
  show ?case
  proof (cases "p \<noteq> [] \<and> startsWith s p")
    case True
    then have "s \<noteq> []" by (auto dest: startsWith_nonempty)
    moreover from True Cons.prems have "r = drop (length p) s" by simp
    ultimately show ?thesis using True by (cases s) auto
  next
    case False
    with Cons show ?thesis by auto
  qed
qed

function trimStart :: "string \<Rightarrow> string" where
  "trimStart s = (case stripOne whiteSpace s of Some r \<Rightarrow> trimStart r | None \<Rightarrow> s)"
  by pat_completeness auto
termination
  by (relation "measure length") (auto dest: stripOne_shorter)

declare trimStart.simps [simp del]

definition digitVal :: "char \<Rightarrow> int" where
  "digitVal c = int (of_char c) - 48"

definition digitsValue :: "string \<Rightarrow> int" where
  "digitsValue z = foldl (\<lambda>a c. 10 * a + digitVal c) 0 z"

text \<open>
  \<open>parseInt(s, 10)\<close> on a string: skip leading white space, read an optional sign,
  then the longest run of decimal digits; NaN when there is none. A value of at least
  \<open>2^1024 - 2^970\<close> rounds to an infinity.
\<close>

definition parseInt :: "string \<Rightarrow> number" where
  "parseInt s =
     (let t = trimStart s;
          neg = (t \<noteq> [] \<and> hd t = CHR ''-'');
          u = (if t \<noteq> [] \<and> (hd t = CHR ''+'' \<or> hd t = CHR ''-'') then tl t else t);
          z = takeWhile isDigit u
      in if z = [] then NaN
         else if 2 ^ 1024 - 2 ^ 970 \<le> digitsValue z
           then (if neg then NegInfinity else PosInfinity)
         else Finite (if neg then - digitsValue z else digitsValue z))"

text \<open>
  A value of the parsed query object (\<open>url.parse(req.url, true).query\<close>): absent, one
  string, or an array of strings when the key is repeated. \<open>parseInt\<close> first converts
  its argument to a string: \<open>undefined\<close> becomes \<open>"undefined"\<close>, an array is joined
  with commas.
\<close>

datatype query_value = Undefined | Str string | Arr "string list"

fun toString :: "query_value \<Rightarrow> string" where
  "toString Undefined = ''undefined''"
| "toString (Str s) = s"
| "toString (Arr xs) = join '','' xs"

text \<open>
  A natural number in decimal, which is how a template literal renders an integer
  below \<open>10^21\<close>.
\<close>

function decimal :: "nat \<Rightarrow> string" where
  "decimal n =
     (if n < 10 then [''0123456789'' ! n]
      else decimal (n div 10) @ [''0123456789'' ! (n mod 10)])"
  by pat_completeness auto
termination
  by (relation "measure id") auto

declare decimal.simps [simp del]

section \<open>Requests and routing (lines 89 to 122)\<close>

text \<open>
  What the handler reads of a request: \<open>req.method\<close>, and the two results of
  \<open>url.parse(req.url, true)\<close> it uses, \<open>pathname\<close> (not percent-decoded) and
  \<open>query.days\<close>; the body is what \<open>req.pipe\<close> forwards.
\<close>

record request =
  req_method :: string
  pathname :: string
  query_days :: query_value
  req_body :: string

text \<open>Line 109: \<open>Number.isFinite(days) && days > 0 ? Math.min(Math.max(days, 60), 365) : 120\<close>.\<close>

definition pageSizeOf :: "number \<Rightarrow> int" where
  "pageSizeOf days =
     (case days of
        Finite d \<Rightarrow> if d > 0 then min (max d 60) 365 else 120
      | _ \<Rightarrow> 120)"

text \<open>
  The two template literals of lines 110-111 and 118. \<open>pageSize\<close> is an integer from
  60 to 365, which the literal renders in decimal.
\<close>

definition historyUrl :: "string \<Rightarrow> int \<Rightarrow> string" where
  "historyUrl fundCode pageSize =
     ''https://fundmobapi.eastmoney.com/FundMNewApi/FundMNHisNetList?'' @
     ''FCODE='' @ fundCode @ ''&pageIndex=1&pageSize='' @ decimal (nat pageSize) @
     ''&appType=ttjj&product=EFund&plat=Iphone&version=6.3.8&deviceid=00000000-0000-0000-0000-000000000000''"

definition snapshotUrl :: "string \<Rightarrow> string" where
  "snapshotUrl fundCode = ''https://fundgz.1234567.com.cn/js/'' @ fundCode @ ''.js''"

text \<open>
  Line 106, \<open>segments.pop() || segments.pop()\<close>: the last segment, or when that is
  the empty string (or missing) the one before it, which may be \<open>undefined\<close>.
\<close>

definition popOrPop :: "string list \<Rightarrow> string option" where
  "popOrPop segments =
     (case pop segments of
        (Some s, rest) \<Rightarrow> if s \<noteq> [] then Some s else fst (pop rest)
      | (None, rest) \<Rightarrow> fst (pop rest))"

text \<open>Lines 107 and 117: \<open>fundCode && /^\d{6}$/.test(fundCode)\<close>.\<close>

definition validCode :: "string option \<Rightarrow> bool" where
  "validCode fundCode = (case fundCode of None \<Rightarrow> False | Some c \<Rightarrow> c \<noteq> [] \<and> test_d6 c)"

text \<open>
  Lines 104 to 122: the target URL handed to \<open>proxyRequest\<close>, or \<open>None\<close> when the
  handler reaches line 124 instead. A path under the history prefix is never tried
  as a snapshot path (\<open>else if\<close>).
\<close>

definition fundTarget :: "request \<Rightarrow> string option" where
  "fundTarget req =
     (if startsWith (pathname req) ''/api/fund/history/'' then
        (let segments = split (pathname req) CHR ''/'';
             fundCode = popOrPop segments
         in if validCode fundCode then
              (let days = parseInt (toString (query_days req));
                   pageSize = pageSizeOf days
               in Some (historyUrl (the fundCode) pageSize))
            else None)
      else if startsWith (pathname req) ''/api/fund/'' then
        (let fundCode = fst (pop (split (pathname req) CHR ''/''))
         in if validCode fundCode then Some (snapshotUrl (the fundCode)) else None)
      else None)"

section \<open>Node library functions: \<open>url.parse\<close>, \<open>path\<close>, \<open>JSON.stringify\<close>\<close>

text \<open>\<open>toLowerCase\<close> on ASCII letters (header names and host names are ASCII).\<close>

definition toLowerChar :: "char \<Rightarrow> char" where
  "toLowerChar c =
     (case map_of (zip ''ABCDEFGHIJKLMNOPQRSTUVWXYZ'' ''abcdefghijklmnopqrstuvwxyz'') c of
        Some l \<Rightarrow> l
      | None \<Rightarrow> c)"

definition toLowerCase :: "string \<Rightarrow> string" where
  "toLowerCase s = map toLowerChar s"

text \<open>
  The three fields \<open>proxyRequest\<close> reads of \<open>url.parse(targetUrl)\<close>, for a target of
  the shape \<open>scheme://host[:port][/path][?query]\<close> (no user information, no fragment
  needed, no character the parser escapes): the host runs up to the first \<open>/\<close>,
  \<open>?\<close> or \<open>#\<close>; a trailing \<open>:digits\<close> of it is the port (\<open>null\<close> when there is no
  digit); the host name is lower-cased; \<open>path\<close> is the rest up to a \<open>#\<close>, or \<open>/\<close>
  when that is empty.
\<close>

record parsed_url =
  url_hostname :: string
  url_port :: "string option"
  url_path :: string

definition hostEnding :: "char \<Rightarrow> bool" where
  "hostEnding c = (c \<in> set ''/?#'')"

definition url_parse :: "string \<Rightarrow> parsed_url" where
  "url_parse u =
     (let rest = drop 3 (dropWhile (\<lambda>c. c \<noteq> CHR '':'') u);
          host = takeWhile (\<lambda>c. \<not> hostEnding c) rest;
          tail = takeWhile (\<lambda>c. c \<noteq> CHR ''#'') (dropWhile (\<lambda>c. \<not> hostEnding c) rest);
          digits = takeWhile isDigit (rev host);
          stem = drop (length digits) (rev host);
          hasPort = (stem \<noteq> [] \<and> hd stem = CHR '':'')
      in \<lparr> url_hostname = toLowerCase (if hasPort then rev (tl stem) else host),
           url_port = (if hasPort \<and> digits \<noteq> [] then Some (rev digits) else None),
           url_path = (if tail = [] then ''/'' else tail) \<rparr>)"

text \<open>
  \<open>path.extname\<close> (POSIX): trailing slashes are ignored; the extension is the part of
  the last path component from its last dot on, and is empty when the component has
  no dot, starts with its only dot, or is \<open>..\<close>.
\<close>

definition extname :: "string \<Rightarrow> string" where
  "extname p =
     (let comp = takeWhile (\<lambda>c. c \<noteq> CHR ''/'') (dropWhile (\<lambda>c. c = CHR ''/'') (rev p));
          after = takeWhile (\<lambda>c. c \<noteq> CHR ''.'') comp;
          stem = drop (Suc (length after)) comp
      in if CHR ''.'' \<notin> set comp then []
         else if stem = [] then []
         else if stem = ''.'' \<and> after = [] then []
         else CHR ''.'' # rev after)"

text \<open>
  \<open>path.normalize\<close> and \<open>path.join\<close> (POSIX). Empty segments and \<open>.\<close> are dropped;
  \<open>..\<close> removes the segment before it, and where there is none it is kept in a
  relative path and dropped in an absolute one. A trailing slash is kept.
\<close>

definition normStep :: "bool \<Rightarrow> string list \<Rightarrow> string \<Rightarrow> string list" where
  "normStep allowAboveRoot out seg =
     (if seg = [] \<or> seg = ''.'' then out
      else if seg = ''..'' then
        (if out \<noteq> [] \<and> last out \<noteq> ''..'' then butlast out
         else if allowAboveRoot then out @ [''..''] else out)
      else out @ [seg])"

definition normalizeString :: "string \<Rightarrow> bool \<Rightarrow> string" where
  "normalizeString p allowAboveRoot =
     join ''/'' (foldl (normStep allowAboveRoot) [] (split p CHR ''/''))"

definition normalize :: "string \<Rightarrow> string" where
  "normalize p =
     (if p = [] then ''.''
      else
        (let isAbsolute = (hd p = CHR ''/'');
             trailingSeparator = (last p = CHR ''/'');
             q = normalizeString p (\<not> isAbsolute)
         in if q = [] then (if isAbsolute then ''/'' else if trailingSeparator then ''./'' else ''.'')
            else (if isAbsolute then ''/'' else []) @ q @ (if trailingSeparator then ''/'' else [])))"

definition path_join :: "string \<Rightarrow> string \<Rightarrow> string" where
  "path_join a b =
     (let joined = (if a = [] then b else if b = [] then a else a @ ''/'' @ b)
      in if joined = [] then ''.'' else normalize joined)"

text \<open>
  \<open>JSON.stringify\<close> of an object whose values are strings. A string is quoted with
  \<open>"\<close> and \<open>\\<close> escaped, the control characters below U+0020 written as \<open>\b\<close>,
  \<open>\t\<close>, \<open>\n\<close>, \<open>\f\<close>, \<open>\r\<close> or \<open>\u00XX\<close> (lower-case hexadecimal), and every other
  character as it is.
\<close>

definition quoteJSONChar :: "char \<Rightarrow> string" where
  "quoteJSONChar c =
     (if c = CHR 0x22 then [CHR 0x5C, CHR 0x22]
      else if c = CHR 0x5C then [CHR 0x5C, CHR 0x5C]
      else if c = CHR 0x08 then [CHR 0x5C, CHR ''b'']
      else if c = CHR 0x09 then [CHR 0x5C, CHR ''t'']
      else if c = CHR 0x0A then [CHR 0x5C, CHR ''n'']
      else if c = CHR 0x0C then [CHR 0x5C, CHR ''f'']
      else if c = CHR 0x0D then [CHR 0x5C, CHR ''r'']
      else if (of_char c :: nat) < 32 then
        [CHR 0x5C, CHR ''u'', CHR ''0'', CHR ''0'',
         ''0123456789abcdef'' ! ((of_char c :: nat) div 16),
         ''0123456789abcdef'' ! ((of_char c :: nat) mod 16)]
      else [c])"

definition quoteJSONString :: "string \<Rightarrow> string" where
  "quoteJSONString s = [CHR 0x22] @ concat (map quoteJSONChar s) @ [CHR 0x22]"

definition JSON_stringify :: "(string \<times> string) list \<Rightarrow> string" where
  "JSON_stringify obj =
     ''{'' @ join '','' (map (\<lambda>(k, v). quoteJSONString k @ '':'' @ quoteJSONString v) obj) @ ''}''"

section \<open>The response object, the outside world and the effects of a request\<close>

text \<open>
  The \<open>http.ServerResponse\<close> of one request. Header names are case-insensitive: Node
  keeps the headers under their lower-cased names. \<open>written\<close> is the body sent so far,
  \<open>finished\<close> whether \<open>end\<close> has been called. \<open>hasBody\<close> is what the constructor
  makes of the request method: the response to a HEAD request has no body, and Node
  drops the data given to \<open>write\<close> and \<open>end\<close> for it.
\<close>

record ServerResponse =
  statusCode :: nat
  outHeaders :: "string \<rightharpoonup> string"
  headersSent :: bool
  written :: string
  finished :: bool
  hasBody :: bool

definition getHeader :: "ServerResponse \<Rightarrow> string \<Rightarrow> string option" where
  "getHeader r name = outHeaders r (toLowerCase name)"

datatype error = ERR_HTTP_HEADERS_SENT

text \<open>
  A line on the console: the request line of line 93 (method and path; its time stamp
  is left out) or the error logged at line 61 (by its message).
\<close>

datatype log_entry = RequestLog string string | ProxyErrorLog string

datatype fs_call = Access string | ReadFile string

datatype protocol = Http | Https

datatype port = Explicit string | Default nat

text \<open>The \<open>options\<close> of lines 38 to 50, the module chosen at line 52, and the piped body.\<close>

record upstream_request =
  up_protocol :: protocol
  up_hostname :: string
  up_port :: port
  up_path :: string
  up_method :: string
  up_headers :: "(string \<times> string) list"
  up_body :: string

text \<open>
  What one upstream request does: it emits \<open>error\<close> before any response, or it
  delivers a response (status, headers), then body chunks, and then either ends or
  emits \<open>error\<close> with the body incomplete. The status and the headers are what
  Node's HTTP parser hands over (\<open>proxyRes.statusCode\<close>, and \<open>proxyRes.headers\<close> with
  lower-cased names), which \<open>writeHead\<close> accepts.
\<close>

datatype ending = Ended | Failed string

datatype upstream_outcome =
    ConnectFailed string
  | Responded nat "(string \<times> string) list" "string list" ending

text \<open>
  The environment of the server: \<open>__dirname\<close>, whether \<open>fs.access(p, F_OK)\<close> reports
  no error, what \<open>fs.readFile(p)\<close> yields (\<open>None\<close> for an error), and what an upstream
  request does.
\<close>

record env =
  dirname :: string
  fs_access :: "string \<Rightarrow> bool"
  fs_readFile :: "string \<Rightarrow> string option"
  upstream :: "upstream_request \<Rightarrow> upstream_outcome"

text \<open>
  Everything one request's handling does: the response, the console, the upstream
  requests issued, the file-system calls made, and the exception that left a callback
  uncaught, if any. Once an exception is pending no later statement runs.
\<close>

record world =
  res :: ServerResponse
  console :: "log_entry list"
  requests :: "upstream_request list"
  fs_calls :: "fs_call list"
  thrown :: "error option"

text \<open>The world at the start of a request with the given method.\<close>

definition initial :: "string \<Rightarrow> world" where
  "initial m =
     \<lparr> res = \<lparr> statusCode = 200, outHeaders = Map.empty, headersSent = False,
                written = [], finished = False, hasBody = (m \<noteq> ''HEAD'') \<rparr>,
       console = [], requests = [], fs_calls = [], thrown = None \<rparr>"

definition console_log :: "log_entry \<Rightarrow> world \<Rightarrow> world" where
  "console_log e w = (if thrown w \<noteq> None then w else w\<lparr> console := console w @ [e] \<rparr>)"

text \<open>
  \<open>res.setHeader\<close> and \<open>res.writeHead\<close> throw \<open>ERR_HTTP_HEADERS_SENT\<close> once the
  head has been sent. \<open>writeHead(status, headers)\<close> sets each given header over the
  ones set before, then sends the head.
\<close>

definition storeHeader :: "string \<times> string \<Rightarrow> ServerResponse \<Rightarrow> ServerResponse" where
  "storeHeader h r = r\<lparr> outHeaders := (outHeaders r)(toLowerCase (fst h) \<mapsto> snd h) \<rparr>"

definition setHeader :: "string \<Rightarrow> string \<Rightarrow> world \<Rightarrow> world" where
  "setHeader name v w =
     (if thrown w \<noteq> None then w
      else if headersSent (res w) then w\<lparr> thrown := Some ERR_HTTP_HEADERS_SENT \<rparr>
      else w\<lparr> res := storeHeader (name, v) (res w) \<rparr>)"

definition writeHead :: "nat \<Rightarrow> (string \<times> string) list \<Rightarrow> world \<Rightarrow> world" where
  "writeHead status hs w =
     (if thrown w \<noteq> None then w
      else if headersSent (res w) then w\<lparr> thrown := Some ERR_HTTP_HEADERS_SENT \<rparr>
      else w\<lparr> res := (fold storeHeader hs (res w))\<lparr> statusCode := status, headersSent := True \<rparr> \<rparr>)"

text \<open>
  A response carries body bytes unless the request was HEAD or the status of its head
  is 204, 304 or 1xx: for those Node ignores the data of \<open>write\<close> and \<open>end\<close>.
\<close>

definition noBodyStatus :: "nat \<Rightarrow> bool" where
  "noBodyStatus status = (status = 204 \<or> status = 304 \<or> (100 \<le> status \<and> status \<le> 199))"

definition sendsBody :: "ServerResponse \<Rightarrow> bool" where
  "sendsBody r = (hasBody r \<and> \<not> noBodyStatus (statusCode r))"

text \<open>
  \<open>res.write(chunk)\<close> and \<open>res.end(data)\<close>: the head is sent first if it has not been
  (with the status and headers set so far); the data is sent if the response carries
  a body; nothing is written after \<open>end\<close>.
\<close>

definition res_write :: "string \<Rightarrow> world \<Rightarrow> world" where
  "res_write chunk w =
     (if thrown w \<noteq> None \<or> finished (res w) then w
      else w\<lparr> res := (res w)\<lparr> headersSent := True,
             written := written (res w) @ (if sendsBody (res w) then chunk else []) \<rparr> \<rparr>)"

definition res_end :: "string \<Rightarrow> world \<Rightarrow> world" where
  "res_end data w =
     (if thrown w \<noteq> None \<or> finished (res w) then w
      else w\<lparr> res := (res w)\<lparr> headersSent := True,
             written := written (res w) @ (if sendsBody (res w) then data else []),
             finished := True \<rparr> \<rparr>)"

section \<open>The server (proxy-server.js)\<close>

text \<open>The table \<open>mimeTypes\<close> (lines 10 to 26).\<close>

definition mimeTypes :: "string \<rightharpoonup> string" where
  "mimeTypes = map_of
     [(''.html'', ''text/html''), (''.js'', ''text/javascript''), (''.css'', ''text/css''),
      (''.json'', ''application/json''), (''.png'', ''image/png''), (''.jpg'', ''image/jpg''),
      (''.gif'', ''image/gif''), (''.svg'', ''image/svg+xml''), (''.wav'', ''audio/wav''),
      (''.mp4'', ''video/mp4''), (''.woff'', ''application/font-woff''),
      (''.ttf'', ''application/font-ttf''), (''.eot'', ''application/vnd.ms-fontobject''),
      (''.otf'', ''application/font-otf''), (''.wasm'', ''application/wasm'')]"

text \<open>\<open>setCORSHeaders\<close> (lines 29 to 34).\<close>

definition setCORSHeaders :: "world \<Rightarrow> world" where
  "setCORSHeaders w0 =
     (let w1 = setHeader ''Access-Control-Allow-Origin'' ''*'' w0;
          w2 = setHeader ''Access-Control-Allow-Methods'' ''GET, POST, PUT, DELETE, OPTIONS'' w1;
          w3 = setHeader ''Access-Control-Allow-Headers''
                 ''Content-Type, Authorization, X-Requested-With'' w2;
          w4 = setHeader ''Access-Control-Allow-Credentials'' ''true'' w3
      in w4)"

text \<open>The fixed request headers of lines 43 to 49.\<close>

definition proxyHeaders :: "(string \<times> string) list" where
  "proxyHeaders =
     [(''User-Agent'', ''Mozilla/5.0 (Macintosh; Intel Mac OS X 10_15_7) AppleWebKit/537.36 (KHTML, like Gecko) Chrome/91.0.4472.124 Safari/537.36''),
      (''Referer'', ''http://fund.eastmoney.com/''),
      (''Accept'', ''*/*''),
      (''Accept-Language'', ''zh-CN,zh;q=0.9,en;q=0.8''),
      (''Cache-Control'', ''no-cache'')]"

text \<open>
  The fixed text of the \<open>error\<close> key at line 64 (six CJK characters), in UTF-8.
\<close>

definition proxyFailedText :: string where
  "proxyFailedText =
     [CHR 0xE4, CHR 0xBB, CHR 0xA3, CHR 0xE7, CHR 0x90, CHR 0x86, CHR 0xE8, CHR 0xAF, CHR 0xB7,
      CHR 0xE6, CHR 0xB1, CHR 0x82, CHR 0xE5, CHR 0xA4, CHR 0xB1, CHR 0xE8, CHR 0xB4, CHR 0xA5]"

text \<open>The callback of \<open>protocol.request\<close> (lines 54 to 58), up to the start of the pipe.\<close>

definition onProxyResponse :: "nat \<Rightarrow> (string \<times> string) list \<Rightarrow> world \<Rightarrow> world" where
  "onProxyResponse status hs w0 =
     (let w1 = setCORSHeaders w0;
          w2 = writeHead status hs w1
      in w2)"

text \<open>The \<open>error\<close> handler of the upstream request (lines 60 to 65).\<close>

definition onProxyError :: "string \<Rightarrow> world \<Rightarrow> world" where
  "onProxyError message w0 =
     (let w1 = console_log (ProxyErrorLog message) w0;
          w2 = setCORSHeaders w1;
          w3 = writeHead 500 [(''Content-Type'', ''application/json'')] w2;
          w4 = res_end (JSON_stringify [(''error'', proxyFailedText), (''message'', message)]) w3
      in w4)"

text \<open>
  \<open>proxyRequest\<close> (lines 37 to 68). The request is issued once; \<open>proxyRes.pipe(res)\<close>
  writes each chunk as it arrives and ends the response when the upstream body ends.
\<close>

definition proxyOptions :: "request \<Rightarrow> string \<Rightarrow> upstream_request" where
  "proxyOptions req targetUrl =
     \<lparr> up_protocol = (if startsWith targetUrl ''https'' then Https else Http),
       up_hostname = url_hostname (url_parse targetUrl),
       up_port = (case url_port (url_parse targetUrl) of
                    Some p \<Rightarrow> Explicit p
                  | None \<Rightarrow> Default (if startsWith targetUrl ''https'' then 443 else 80)),
       up_path = url_path (url_parse targetUrl),
       up_method = req_method req,
       up_headers = proxyHeaders,
       up_body = req_body req \<rparr>"

definition proxyRequest :: "env \<Rightarrow> request \<Rightarrow> string \<Rightarrow> world \<Rightarrow> world" where
  "proxyRequest e req targetUrl w0 =
     (let options = proxyOptions req targetUrl;
          w1 = w0\<lparr> requests := requests w0 @ [options] \<rparr>
      in case upstream e options of
           ConnectFailed message \<Rightarrow> onProxyError message w1
         | Responded status hs chunks ending \<Rightarrow>
             (let w2 = onProxyResponse status hs w1;
                  w3 = fold res_write chunks w2
              in case ending of
                   Ended \<Rightarrow> res_end [] w3
                 | Failed message \<Rightarrow> onProxyError message w3))"

text \<open>The two statements of each 404 branch (lines 74-75, 135-136 and 142-143).\<close>

definition notFound :: "world \<Rightarrow> world" where
  "notFound w0 =
     (let w1 = writeHead 404 [(''Content-Type'', ''text/plain'')] w0;
          w2 = res_end ''File not found'' w1
      in w2)"

text \<open>\<open>serveStaticFile\<close> (lines 71 to 86).\<close>

definition serveStaticFile :: "env \<Rightarrow> string \<Rightarrow> world \<Rightarrow> world" where
  "serveStaticFile e filePath w0 =
     (let w1 = w0\<lparr> fs_calls := fs_calls w0 @ [ReadFile filePath] \<rparr>
      in case fs_readFile e filePath of
           None \<Rightarrow> notFound w1
         | Some data \<Rightarrow>
             (let ext = extname filePath;
                  mimeType = (case mimeTypes ext of Some t \<Rightarrow> t | None \<Rightarrow> ''text/plain'');
                  w2 = setCORSHeaders w1;
                  w3 = writeHead 200 [(''Content-Type'', mimeType)] w2;
                  w4 = res_end data w3
              in w4))"

text \<open>Static resolution (lines 125 to 148).\<close>

definition staticPath :: "env \<Rightarrow> request \<Rightarrow> string" where
  "staticPath e req =
     path_join (dirname e) (if pathname req = ''/'' then ''fund_calculator.html'' else pathname req)"

definition resolveStatic :: "env \<Rightarrow> request \<Rightarrow> world \<Rightarrow> world" where
  "resolveStatic e req w0 =
     (let filePath = staticPath e req;
          w1 = w0\<lparr> fs_calls := fs_calls w0 @ [Access filePath] \<rparr>
      in if \<not> fs_access e filePath then
           (if extname filePath = [] then
              (let filePath2 = filePath @ ''.html'';
                   w2 = w1\<lparr> fs_calls := fs_calls w1 @ [Access filePath2] \<rparr>
               in if \<not> fs_access e filePath2 then notFound w2
                  else serveStaticFile e filePath2 w2)
            else notFound w1)
         else serveStaticFile e filePath w1)"

text \<open>
  The request handler (lines 89 to 149), run on a fresh response. Its asynchronous
  steps (the two \<open>fs.access\<close> callbacks, the \<open>fs.readFile\<close> callback, the events of
  the upstream request) are run in the order in which they happen, each with the
  answer of the environment.
\<close>

definition handler :: "env \<Rightarrow> request \<Rightarrow> world" where
  "handler e req =
     (let w0 = console_log (RequestLog (req_method req) (pathname req)) (initial (req_method req))
      in if req_method req = ''OPTIONS'' then
           (let w1 = setCORSHeaders w0;
                w2 = writeHead 200 [] w1;
                w3 = res_end [] w2
            in w3)
         else
           (case fundTarget req of
              Some targetUrl \<Rightarrow> proxyRequest e req targetUrl w0
            | None \<Rightarrow> resolveStatic e req w0))"

section \<open>Vocabulary of the properties, and example inputs\<close>

text \<open>The four CORS headers with the values \<open>setCORSHeaders\<close> gives them.\<close>

definition carriesCORS :: "ServerResponse \<Rightarrow> bool" where
  "carriesCORS r =
     (getHeader r ''Access-Control-Allow-Origin'' = Some ''*'' \<and>
      getHeader r ''Access-Control-Allow-Methods'' = Some ''GET, POST, PUT, DELETE, OPTIONS'' \<and>
      getHeader r ''Access-Control-Allow-Headers'' =
        Some ''Content-Type, Authorization, X-Requested-With'' \<and>
      getHeader r ''Access-Control-Allow-Credentials'' = Some ''true'')"

text \<open>
  The value an upstream header list gives a header name (names compared without case,
  the last occurrence counts), and that value if there is one, else a default.
\<close>

definition upstreamHeader :: "(string \<times> string) list \<Rightarrow> string \<Rightarrow> string option" where
  "upstreamHeader hs name =
     map_of (rev (map (\<lambda>h. (toLowerCase (fst h), snd h)) hs)) (toLowerCase name)"

definition orElse :: "'a option \<Rightarrow> 'a \<Rightarrow> 'a" where
  "orElse x d = (case x of Some v \<Rightarrow> v | None \<Rightarrow> d)"

text \<open>
  The four CORS headers are present, each with the value of \<open>setCORSHeaders\<close> unless
  the upstream header list has a header of that name, whose value it then carries.
\<close>

definition relaysCORS :: "(string \<times> string) list \<Rightarrow> ServerResponse \<Rightarrow> bool" where
  "relaysCORS hs r =
     (getHeader r ''Access-Control-Allow-Origin'' =
        Some (orElse (upstreamHeader hs ''Access-Control-Allow-Origin'') ''*'') \<and>
      getHeader r ''Access-Control-Allow-Methods'' =
        Some (orElse (upstreamHeader hs ''Access-Control-Allow-Methods'')
               ''GET, POST, PUT, DELETE, OPTIONS'') \<and>
      getHeader r ''Access-Control-Allow-Headers'' =
        Some (orElse (upstreamHeader hs ''Access-Control-Allow-Headers'')
               ''Content-Type, Authorization, X-Requested-With'') \<and>
      getHeader r ''Access-Control-Allow-Credentials'' =
        Some (orElse (upstreamHeader hs ''Access-Control-Allow-Credentials'') ''true''))"

text \<open>
  Reading a JSON string literal back (RFC 8259, section 7), for the escapes that
  denote a single byte: between the two quotation marks, \<open>\"\<close>, \<open>\\\<close>, \<open>\/\<close>, \<open>\b\<close>,
  \<open>\t\<close>, \<open>\n\<close>, \<open>\f\<close>, \<open>\r\<close> and \<open>\u00XX\<close> are decoded, an unescaped quotation mark
  or control character is an error, and every other character stands for itself.
\<close>

definition hexVal :: "char \<Rightarrow> nat option" where
  "hexVal c = map_of (zip ''0123456789abcdefABCDEF''
     [0, 1, 2, 3, 4, 5, 6, 7, 8, 9, 10, 11, 12, 13, 14, 15, 10, 11, 12, 13, 14, 15]) c"

definition simpleEscape :: "char \<Rightarrow> char option" where
  "simpleEscape c = map_of
     [(CHR 0x22, CHR 0x22), (CHR 0x5C, CHR 0x5C), (CHR ''/'', CHR ''/''), (CHR ''b'', CHR 0x08),
      (CHR ''t'', CHR 0x09), (CHR ''n'', CHR 0x0A), (CHR ''f'', CHR 0x0C), (CHR ''r'', CHR 0x0D)] c"

fun unescapeJSON :: "string \<Rightarrow> string option" where
  "unescapeJSON [] = Some []"
| "unescapeJSON (c # cs) =
     (if c = CHR 0x5C then
        (case cs of
           [] \<Rightarrow> None
         | d # ds \<Rightarrow>
             if d = CHR ''u'' then
               (case ds of
                  a # b # x # y # r \<Rightarrow>
                    (case (hexVal a, hexVal b, hexVal x, hexVal y) of
                       (Some 0, Some 0, Some h, Some l) \<Rightarrow>
                         map_option (Cons (char_of (16 * h + l))) (unescapeJSON r)
                     | _ \<Rightarrow> None)
                | _ \<Rightarrow> None)
             else
               (case simpleEscape d of
                  Some ch \<Rightarrow> map_option (Cons ch) (unescapeJSON ds)
                | None \<Rightarrow> None))
      else if c = CHR 0x22 \<or> (of_char c :: nat) < 32 then None
      else map_option (Cons c) (unescapeJSON cs))"

definition unquoteJSONString :: "string \<Rightarrow> string option" where
  "unquoteJSONString s =
     (if 2 \<le> length s \<and> hd s = CHR 0x22 \<and> last s = CHR 0x22
      then unescapeJSON (butlast (tl s)) else None)"

text \<open>
  An example deployment: the server lives in \<open>/srv/jojo\<close>, which holds
  \<open>fund_calculator.html\<close> and \<open>about.html\<close>. The snapshot host answers 200 with two
  chunks and an \<open>Access-Control-Allow-Origin\<close> header of its own; the history host
  delivers one chunk and then fails; any other host refuses the connection.
\<close>

definition exampleEnv :: env where
  "exampleEnv =
     \<lparr> dirname = ''/srv/jojo'',
       fs_access = (\<lambda>p. p = ''/srv/jojo/fund_calculator.html'' \<or> p = ''/srv/jojo/about.html''),
       fs_readFile = (\<lambda>p. if p = ''/srv/jojo/fund_calculator.html'' then Some ''<html>calc</html>''
                          else if p = ''/srv/jojo/about.html'' then Some ''<html>about</html>''
                          else None),
       upstream = (\<lambda>r. if up_hostname r = ''fundgz.1234567.com.cn''
                        then Responded 200
                               [(''content-type'', ''text/javascript''),
                                (''access-control-allow-origin'', ''https://fund.eastmoney.com'')]
                               [''jsonpgz('', ''{});''] Ended
                        else if up_hostname r = ''fundmobapi.eastmoney.com''
                        then Responded 200 [(''content-type'', ''application/json'')]
                               [''{'' @ [CHR 0x22] @ ''Datas'' @ [CHR 0x22] @ '':[''] (Failed ''read ECONNRESET'')
                        else ConnectFailed ''connect ECONNREFUSED'') \<rparr>"

text \<open>The same deployment with every upstream host refusing the connection.\<close>

definition offlineEnv :: env where
  "offlineEnv = exampleEnv\<lparr> upstream := (\<lambda>r. ConnectFailed ''connect ECONNREFUSED'') \<rparr>"

text \<open>A request with the given method, path and \<open>days\<close> parameter, and an empty body.\<close>

definition request :: "string \<Rightarrow> string \<Rightarrow> query_value \<Rightarrow> request" where
  "request m p q = \<lparr> req_method = m, pathname = p, query_days = q, req_body = [] \<rparr>"

section \<open>Lemmas about the library functions\<close>

lemma split_nonempty: "split s c \<noteq> []"
  by (induction s) (auto split: list.splits)

lemma split_no_sep: "c \<notin> set s \<Longrightarrow> split s c = [s]"
  by (induction s) auto

lemma split_append_sep: "split (a @ c # b) c = split a c @ split b c"
proof (induction a)
  case Nil
  then show ?case by simp
next
  case (Cons x a)
  then show ?case using split_nonempty [of a c]
    by (cases "split a c") auto
qed

lemma startsWith_append: "startsWith (p @ s) p"
  by (simp add: startsWith_def)

lemma test_d6_digits: "test_d6 c \<Longrightarrow> set c \<subseteq> set ''0123456789''"
  unfolding test_d6_def list_all_iff isDigit_def by blast

lemma digit_not_slash: "x \<in> set ''0123456789'' \<Longrightarrow> x \<noteq> CHR ''/''"
  by auto

lemma digit_not_hash: "x \<in> set ''0123456789'' \<Longrightarrow> x \<noteq> CHR ''#''"
  by auto

lemma digit_not_h: "x \<in> set ''0123456789'' \<Longrightarrow> x \<noteq> CHR ''h''"
  by auto

lemma test_d6_no_slash: "test_d6 s \<Longrightarrow> CHR ''/'' \<notin> set s"
  using test_d6_digits [of s] digit_not_slash by blast

lemma test_d6_nonempty: "test_d6 s \<Longrightarrow> s \<noteq> []"
  by (auto simp: test_d6_def)

lemma test_d6_hd: "test_d6 s \<Longrightarrow> hd s \<noteq> CHR ''h''"
  using test_d6_digits [of s] test_d6_nonempty [of s] digit_not_h [of "hd s"]
  by (cases s) auto

lemma split_history:
  "CHR ''/'' \<notin> set c \<Longrightarrow>
     split (''/api/fund/history/'' @ c) CHR ''/'' = [[], ''api'', ''fund'', ''history'', c]"
  by (simp add: split_no_sep)

lemma split_snapshot:
  "CHR ''/'' \<notin> set c \<Longrightarrow> split (''/api/fund/'' @ c) CHR ''/'' = [[], ''api'', ''fund'', c]"
  by (simp add: split_no_sep)

lemma decimal_digits: "set (decimal n) \<subseteq> set ''0123456789''"
proof (induction n rule: decimal.induct)
  case (1 n)
  have d: "''0123456789'' ! k \<in> set ''0123456789''" if "k < 10" for k
    using that by (intro nth_mem) simp
  show ?case
  proof (cases "n < 10")
    case True
    then show ?thesis using d [of n] by (subst decimal.simps) simp
  next
    case False
    then show ?thesis using "1.IH" d [of "n mod 10"] by (subst decimal.simps) simp
  qed
qed

lemma decimal_nonempty: "decimal n \<noteq> []"
  by (subst decimal.simps) simp

lemma isDigit_decimal: "list_all isDigit (decimal n)"
  using decimal_digits [of n] unfolding list_all_iff isDigit_def by blast

lemma small_cases:
  assumes "k < 10"
  shows "k = 0 \<or> k = 1 \<or> k = 2 \<or> k = 3 \<or> k = 4 \<or> k = 5 \<or> k = 6 \<or> k = 7 \<or> k = 8 \<or> k = (9::nat)"
  using assms by arith

lemma digitVal_nth: "k < 10 \<Longrightarrow> digitVal (''0123456789'' ! k) = int k"
  using small_cases [of k] by (auto simp: digitVal_def)

lemma nonzero_digit_nth: "k < 10 \<Longrightarrow> 0 < k \<Longrightarrow> ''0123456789'' ! k \<noteq> CHR ''0''"
  using small_cases [of k] by auto

lemma digitsValue_snoc: "digitsValue (xs @ [c]) = 10 * digitsValue xs + digitVal c"
  by (simp add: digitsValue_def)

text \<open>The digits written for a number denote that number, and start with no zero.\<close>

lemma digitsValue_decimal: "digitsValue (decimal n) = int n"
proof (induction n rule: decimal.induct)
  case (1 n)
  show ?case
  proof (cases "n < 10")
    case True
    then show ?thesis
      by (subst decimal.simps) (simp add: digitsValue_def digitVal_nth)
  next
    case False
    have "digitsValue (decimal n) =
        10 * digitsValue (decimal (n div 10)) + digitVal (''0123456789'' ! (n mod 10))"
      using False by (subst decimal.simps) (simp add: digitsValue_snoc)
    also have "\<dots> = 10 * int (n div 10) + int (n mod 10)"
      using False by (simp add: "1.IH" digitVal_nth)
    also have "\<dots> = int n"
      by presburger
    finally show ?thesis .
  qed
qed

lemma hd_decimal: "0 < n \<Longrightarrow> hd (decimal n) \<noteq> CHR ''0''"
proof (induction n rule: decimal.induct)
  case (1 n)
  show ?case
  proof (cases "n < 10")
    case True
    with "1.prems" have nz: "''0123456789'' ! n \<noteq> CHR ''0''"
      by (intro nonzero_digit_nth)
    have "decimal n = [''0123456789'' ! n]"
      using True by (subst decimal.simps) (simp only: if_True)
    with nz show ?thesis
      by (simp only: list.sel not_False_eq_True)
  next
    case False
    then have "0 < n div 10" by simp
    with False "1.IH" have "hd (decimal (n div 10)) \<noteq> CHR ''0''" by simp
    with False show ?thesis
      by (subst decimal.simps) (simp add: decimal_nonempty)
  qed
qed

lemma decimal_inj: "decimal a = decimal b \<Longrightarrow> a = b"
  by (metis digitsValue_decimal of_nat_eq_iff)

lemma decimal_examples:
  "decimal 120 = ''120''" "decimal 60 = ''60''" "decimal 365 = ''365''" "decimal 90 = ''90''"
  by (simp_all add: decimal.simps)

lemma pageSizeOf_bounds: "60 \<le> pageSizeOf d \<and> pageSizeOf d \<le> 365"
  by (cases d) (simp_all add: pageSizeOf_def)

lemma takeWhile_not_hash_digits:
  assumes "set s \<subseteq> set ''0123456789''"
  shows "takeWhile (\<lambda>x. x \<noteq> CHR ''#'') (s @ ys) = s @ takeWhile (\<lambda>x. x \<noteq> CHR ''#'') ys"
proof (rule takeWhile_append2)
  fix x assume "x \<in> set s"
  with assms have "x \<in> set ''0123456789''" by blast
  then show "x \<noteq> CHR ''#''" by (rule digit_not_hash)
qed

lemma url_parse_snapshot:
  assumes "test_d6 c"
  shows "url_parse (snapshotUrl c) =
    \<lparr> url_hostname = ''fundgz.1234567.com.cn'', url_port = None,
      url_path = ''/js/'' @ c @ ''.js'' \<rparr>"
  using takeWhile_not_hash_digits [OF test_d6_digits [OF assms]]
  by (simp add: url_parse_def snapshotUrl_def hostEnding_def isDigit_def Let_def
        toLowerCase_def toLowerChar_def)

lemma url_parse_history:
  assumes "test_d6 c"
  shows "url_parse (historyUrl c n) =
    \<lparr> url_hostname = ''fundmobapi.eastmoney.com'', url_port = None,
      url_path = ''/FundMNewApi/FundMNHisNetList?FCODE='' @ c @ ''&pageIndex=1&pageSize='' @
        decimal (nat n) @
        ''&appType=ttjj&product=EFund&plat=Iphone&version=6.3.8&deviceid=00000000-0000-0000-0000-000000000000'' \<rparr>"
  using takeWhile_not_hash_digits [OF test_d6_digits [OF assms]]
    takeWhile_not_hash_digits [OF decimal_digits]
  by (simp add: url_parse_def historyUrl_def hostEnding_def isDigit_def Let_def
        toLowerCase_def toLowerChar_def)

lemma startsWith_https_snapshot: "startsWith (snapshotUrl c) ''https''"
  by (simp add: snapshotUrl_def startsWith_def)

lemma startsWith_https_history: "startsWith (historyUrl c n) ''https''"
  by (simp add: historyUrl_def startsWith_def)

lemma parseInt_undefined: "parseInt ''undefined'' = NaN"
  by (simp add: parseInt_def trimStart.simps whiteSpace_def startsWith_def isDigit_def)

lemma hexVal_digit: "k < 16 \<Longrightarrow> hexVal (''0123456789abcdef'' ! k) = Some k"
proof -
  assume "k < 16"
  then have "k = 0 \<or> k = 1 \<or> k = 2 \<or> k = 3 \<or> k = 4 \<or> k = 5 \<or> k = 6 \<or> k = 7 \<or> k = 8 \<or>
      k = 9 \<or> k = 10 \<or> k = 11 \<or> k = 12 \<or> k = 13 \<or> k = 14 \<or> k = 15"
    by arith
  then show ?thesis
    by (auto simp: hexVal_def)
qed

lemma hexVal_zero: "hexVal CHR ''0'' = Some 0"
  by (simp add: hexVal_def)

lemma unescape_quoteChar:
  "unescapeJSON (quoteJSONChar c @ rest) = map_option (Cons c) (unescapeJSON rest)"
proof (cases "c \<in> set [CHR 0x22, CHR 0x5C, CHR 0x08, CHR 0x09, CHR 0x0A, CHR 0x0C, CHR 0x0D]")
  case True
  then show ?thesis
    by (auto simp: quoteJSONChar_def simpleEscape_def)
next
  case False
  note plain = False
  show ?thesis
  proof (cases "(of_char c :: nat) < 32")
    case True
    then have hi: "(of_char c :: nat) div 16 < 16" and lo: "(of_char c :: nat) mod 16 < 16"
      by simp_all
    have same: "char_of (16 * ((of_char c :: nat) div 16) + (of_char c :: nat) mod 16) = c"
      by simp
    from plain True show ?thesis
      by (simp add: quoteJSONChar_def hexVal_zero hexVal_digit [OF hi] hexVal_digit [OF lo] same)
  next
    case False
    with plain show ?thesis
      by (simp add: quoteJSONChar_def)
  qed
qed

lemma unescape_quoted:
  "unescapeJSON (concat (map quoteJSONChar s) @ rest) = map_option ((@) s) (unescapeJSON rest)"
proof (induction s)
  case Nil
  show ?case by (simp add: option.map_ident)
next
  case (Cons c s)
  have "unescapeJSON (concat (map quoteJSONChar (c # s)) @ rest) =
      unescapeJSON (quoteJSONChar c @ (concat (map quoteJSONChar s) @ rest))"
    by simp
  also have "\<dots> = map_option (Cons c) (unescapeJSON (concat (map quoteJSONChar s) @ rest))"
    by (rule unescape_quoteChar)
  also have "\<dots> = map_option ((@) (c # s)) (unescapeJSON rest)"
    by (cases "unescapeJSON rest") (simp_all add: Cons.IH)
  finally show ?case .
qed

lemma unquote_quote: "unquoteJSONString (quoteJSONString s) = Some s"
  using unescape_quoted [of s "[]"]
  by (simp add: unquoteJSONString_def quoteJSONString_def butlast_append)

section \<open>Lemmas about routing\<close>

lemma fundTarget_history:
  assumes "test_d6 c" "pathname req = ''/api/fund/history/'' @ c"
  shows "fundTarget req = Some (historyUrl c (pageSizeOf (parseInt (toString (query_days req)))))"
proof -
  have pre: "startsWith (pathname req) ''/api/fund/history/''"
    unfolding assms(2) by (rule startsWith_append)
  have seg: "split (pathname req) CHR ''/'' = [[], ''api'', ''fund'', ''history'', c]"
    unfolding assms(2) by (rule split_history) (rule test_d6_no_slash [OF assms(1)])
  show ?thesis
    using assms(1) test_d6_nonempty [OF assms(1)]
    by (simp add: fundTarget_def pre seg popOrPop_def pop_def validCode_def Let_def)
qed

lemma fundTarget_snapshot:
  assumes "test_d6 c" "pathname req = ''/api/fund/'' @ c"
  shows "fundTarget req = Some (snapshotUrl c)"
proof -
  have nohist: "\<not> startsWith (pathname req) ''/api/fund/history/''"
    unfolding assms(2) using test_d6_nonempty [OF assms(1)] test_d6_hd [OF assms(1)]
    by (cases c) (auto simp: startsWith_def)
  have pre: "startsWith (pathname req) ''/api/fund/''"
    unfolding assms(2) by (rule startsWith_append)
  have seg: "split (pathname req) CHR ''/'' = [[], ''api'', ''fund'', c]"
    unfolding assms(2) by (rule split_snapshot) (rule test_d6_no_slash [OF assms(1)])
  show ?thesis
    using assms(1) test_d6_nonempty [OF assms(1)]
    by (simp add: fundTarget_def nohist pre seg pop_def validCode_def Let_def)
qed

lemma fundTarget_valid:
  assumes "fundTarget req = Some t"
  shows "\<exists>c. test_d6 c \<and> (t = snapshotUrl c \<or> (\<exists>n. t = historyUrl c n))"
  using assms
  by (auto simp: fundTarget_def validCode_def Let_def split: if_splits option.splits)

section \<open>Lemmas about the effects\<close>

lemma lower_acao: "toLowerCase ''Access-Control-Allow-Origin'' = ''access-control-allow-origin''"
  by (simp add: toLowerCase_def toLowerChar_def)

lemma lower_acam: "toLowerCase ''Access-Control-Allow-Methods'' = ''access-control-allow-methods''"
  by (simp add: toLowerCase_def toLowerChar_def)

lemma lower_acah: "toLowerCase ''Access-Control-Allow-Headers'' = ''access-control-allow-headers''"
  by (simp add: toLowerCase_def toLowerChar_def)

lemma lower_acac:
  "toLowerCase ''Access-Control-Allow-Credentials'' = ''access-control-allow-credentials''"
  by (simp add: toLowerCase_def toLowerChar_def)

lemma lower_ct: "toLowerCase ''Content-Type'' = ''content-type''"
  by (simp add: toLowerCase_def toLowerChar_def)

lemmas lower_names = lower_acao lower_acam lower_acah lower_acac lower_ct

lemma requests_initial [simp]: "requests (initial mt) = []"
  by (simp add: initial_def)

lemma requests_console_log [simp]: "requests (console_log l w) = requests w"
  by (simp add: console_log_def)

lemma requests_setHeader [simp]: "requests (setHeader n v w) = requests w"
  by (simp add: setHeader_def)

lemma requests_writeHead [simp]: "requests (writeHead s hs w) = requests w"
  by (simp add: writeHead_def)

lemma requests_res_write [simp]: "requests (res_write c w) = requests w"
  by (simp add: res_write_def)

lemma requests_res_end [simp]: "requests (res_end d w) = requests w"
  by (simp add: res_end_def)

lemma requests_fold_res_write [simp]: "requests (fold res_write cs w) = requests w"
  by (induction cs arbitrary: w) auto

lemma requests_setCORSHeaders [simp]: "requests (setCORSHeaders w) = requests w"
  by (simp add: setCORSHeaders_def)

lemma requests_onProxyError [simp]: "requests (onProxyError m w) = requests w"
  by (simp add: onProxyError_def)

lemma requests_onProxyResponse [simp]: "requests (onProxyResponse s hs w) = requests w"
  by (simp add: onProxyResponse_def)

lemma requests_notFound [simp]: "requests (notFound w) = requests w"
  by (simp add: notFound_def)

lemma requests_serveStaticFile [simp]: "requests (serveStaticFile e p w) = requests w"
  by (simp add: serveStaticFile_def Let_def split: option.splits)

lemma requests_resolveStatic [simp]: "requests (resolveStatic e req w) = requests w"
  by (simp add: resolveStatic_def Let_def)

lemma requests_proxyRequest:
  "requests (proxyRequest e req t w) = requests w @ [proxyOptions req t]"
  by (simp add: proxyRequest_def Let_def split: upstream_outcome.splits ending.splits)

lemma handler_proxied:
  assumes "req_method req \<noteq> ''OPTIONS''" "fundTarget req = Some t"
  shows "handler e req =
    proxyRequest e req t (console_log (RequestLog (req_method req) (pathname req)) (initial (req_method req)))"
  using assms by (simp add: handler_def)

lemma handler_static:
  assumes "req_method req \<noteq> ''OPTIONS''" "fundTarget req = None"
  shows "handler e req =
    resolveStatic e req (console_log (RequestLog (req_method req) (pathname req)) (initial (req_method req)))"
  using assms by (simp add: handler_def)

lemma setCORSHeaders_open:
  assumes "thrown w = None" "\<not> headersSent (res w)"
  shows "setCORSHeaders w = w\<lparr> res := (res w)\<lparr> outHeaders := (outHeaders (res w))
     (''access-control-allow-origin'' \<mapsto> ''*'',
      ''access-control-allow-methods'' \<mapsto> ''GET, POST, PUT, DELETE, OPTIONS'',
      ''access-control-allow-headers'' \<mapsto> ''Content-Type, Authorization, X-Requested-With'',
      ''access-control-allow-credentials'' \<mapsto> ''true'') \<rparr> \<rparr>"
  using assms by (simp add: setCORSHeaders_def setHeader_def storeHeader_def lower_names)

lemma setCORSHeaders_sent:
  assumes "thrown w = None" "headersSent (res w)"
  shows "setCORSHeaders w = w\<lparr> thrown := Some ERR_HTTP_HEADERS_SENT \<rparr>"
  using assms by (simp add: setCORSHeaders_def setHeader_def)

section \<open>Lemmas about the proxy forwarder\<close>

lemma map_upd_add_snoc: "m(k \<mapsto> v) ++ map_of xs = m ++ map_of (xs @ [(k, v)])"
  by (rule ext) (simp add: map_add_def split: option.splits)

lemma fold_storeHeader:
  "fold storeHeader hs r =
     r\<lparr> outHeaders := outHeaders r ++ map_of (rev (map (\<lambda>h. (toLowerCase (fst h), snd h)) hs)) \<rparr>"
proof (induction hs arbitrary: r)
  case Nil
  then show ?case by simp
next
  case (Cons h hs)
  have "fold storeHeader (h # hs) r = fold storeHeader hs (storeHeader h r)"
    by simp
  also have "\<dots> = (storeHeader h r)\<lparr> outHeaders := outHeaders (storeHeader h r) ++
      map_of (rev (map (\<lambda>h. (toLowerCase (fst h), snd h)) hs)) \<rparr>"
    by (rule Cons.IH)
  also have "\<dots> = r\<lparr> outHeaders := outHeaders r ++
      map_of (rev (map (\<lambda>h. (toLowerCase (fst h), snd h)) (h # hs))) \<rparr>"
    by (simp add: storeHeader_def map_upd_add_snoc del: map_of_append)
  finally show ?case .
qed

lemma thrown_fold_res_write [simp]: "thrown (fold res_write cs w) = thrown w"
  by (induction cs arbitrary: w) (auto simp: res_write_def)

lemma console_fold_res_write [simp]: "console (fold res_write cs w) = console w"
  by (induction cs arbitrary: w) (auto simp: res_write_def)

lemma outHeaders_fold_res_write [simp]:
  "outHeaders (res (fold res_write cs w)) = outHeaders (res w)"
  by (induction cs arbitrary: w) (auto simp: res_write_def)

lemma statusCode_fold_res_write [simp]:
  "statusCode (res (fold res_write cs w)) = statusCode (res w)"
  by (induction cs arbitrary: w) (auto simp: res_write_def)

lemma finished_fold_res_write [simp]:
  "finished (res (fold res_write cs w)) = finished (res w)"
  by (induction cs arbitrary: w) (auto simp: res_write_def)

lemma headersSent_fold_res_write:
  "headersSent (res w) \<Longrightarrow> headersSent (res (fold res_write cs w))"
  by (induction cs arbitrary: w) (auto simp: res_write_def)

lemma written_fold_res_write:
  "thrown w = None \<Longrightarrow> \<not> finished (res w) \<Longrightarrow>
     written (res (fold res_write cs w)) =
       written (res w) @ (if sendsBody (res w) then concat cs else [])"
  by (induction cs arbitrary: w) (auto simp: res_write_def sendsBody_def)

text \<open>The world in which a routed request starts: fresh, with the request logged.\<close>

lemma logged_initial:
  "console_log l (initial mt) =
     \<lparr> res = \<lparr> statusCode = 200, outHeaders = Map.empty, headersSent = False,
                written = [], finished = False, hasBody = (mt \<noteq> ''HEAD'') \<rparr>,
       console = [l], requests = [], fs_calls = [], thrown = None \<rparr>"
  by (simp add: console_log_def initial_def)

lemma onProxyResponse_open:
  assumes "thrown w = None" "\<not> headersSent (res w)"
  shows "onProxyResponse status hs w =
     w\<lparr> res := (res w)\<lparr> outHeaders := (outHeaders (res w))
         (''access-control-allow-origin'' \<mapsto> ''*'',
          ''access-control-allow-methods'' \<mapsto> ''GET, POST, PUT, DELETE, OPTIONS'',
          ''access-control-allow-headers'' \<mapsto> ''Content-Type, Authorization, X-Requested-With'',
          ''access-control-allow-credentials'' \<mapsto> ''true'') ++
          map_of (rev (map (\<lambda>h. (toLowerCase (fst h), snd h)) hs)),
        statusCode := status, headersSent := True \<rparr> \<rparr>"
  using assms
  by (simp add: onProxyResponse_def setCORSHeaders_open writeHead_def fold_storeHeader)

lemma onProxyError_open:
  assumes "thrown w = None" "\<not> headersSent (res w)" "\<not> finished (res w)"
  shows "onProxyError m w =
     w\<lparr> res := (res w)\<lparr> outHeaders := (outHeaders (res w))
         (''access-control-allow-origin'' \<mapsto> ''*'',
          ''access-control-allow-methods'' \<mapsto> ''GET, POST, PUT, DELETE, OPTIONS'',
          ''access-control-allow-headers'' \<mapsto> ''Content-Type, Authorization, X-Requested-With'',
          ''access-control-allow-credentials'' \<mapsto> ''true'',
          ''content-type'' \<mapsto> ''application/json''),
        statusCode := 500, headersSent := True,
        written := written (res w) @
          (if hasBody (res w)
           then JSON_stringify [(''error'', proxyFailedText), (''message'', m)] else []),
        finished := True \<rparr>,
        console := console w @ [ProxyErrorLog m] \<rparr>"
  using assms
  by (simp add: onProxyError_def console_log_def setCORSHeaders_open writeHead_def
        storeHeader_def res_end_def lower_names sendsBody_def noBodyStatus_def)

lemma onProxyError_sent:
  assumes "thrown w = None" "headersSent (res w)"
  shows "onProxyError m w =
     w\<lparr> console := console w @ [ProxyErrorLog m], thrown := Some ERR_HTTP_HEADERS_SENT \<rparr>"
  using assms
  by (simp add: onProxyError_def console_log_def setCORSHeaders_sent writeHead_def res_end_def)

lemma proxy_connect_failed:
  assumes "upstream e (proxyOptions req t) = ConnectFailed m"
  shows "proxyRequest e req t (console_log l (initial mt)) =
     \<lparr> res = \<lparr> statusCode = 500,
                outHeaders = [''access-control-allow-origin'' \<mapsto> ''*'',
                  ''access-control-allow-methods'' \<mapsto> ''GET, POST, PUT, DELETE, OPTIONS'',
                  ''access-control-allow-headers'' \<mapsto> ''Content-Type, Authorization, X-Requested-With'',
                  ''access-control-allow-credentials'' \<mapsto> ''true'',
                  ''content-type'' \<mapsto> ''application/json''],
                headersSent = True,
                written = (if mt \<noteq> ''HEAD''
                  then JSON_stringify [(''error'', proxyFailedText), (''message'', m)] else []),
                finished = True, hasBody = (mt \<noteq> ''HEAD'') \<rparr>,
       console = [l, ProxyErrorLog m], requests = [proxyOptions req t], fs_calls = [],
       thrown = None \<rparr>"
  using assms
  by (simp add: proxyRequest_def Let_def logged_initial onProxyError_open)

lemma proxy_responded:
  fixes l :: log_entry and mt :: string
  assumes "upstream e (proxyOptions req t) = Responded status hs cs en"
  defines "w \<equiv> proxyRequest e req t (console_log l (initial mt))"
  shows "statusCode (res w) = status"
    and "outHeaders (res w) =
          [''access-control-allow-origin'' \<mapsto> ''*'',
           ''access-control-allow-methods'' \<mapsto> ''GET, POST, PUT, DELETE, OPTIONS'',
           ''access-control-allow-headers'' \<mapsto> ''Content-Type, Authorization, X-Requested-With'',
           ''access-control-allow-credentials'' \<mapsto> ''true''] ++
          map_of (rev (map (\<lambda>h. (toLowerCase (fst h), snd h)) hs))"
    and "written (res w) =
          (if mt \<noteq> ''HEAD'' \<and> \<not> noBodyStatus status then concat cs else [])"
    and "headersSent (res w)"
    and "finished (res w) = (en = Ended)"
    and "thrown w = (case en of Ended \<Rightarrow> None | Failed m \<Rightarrow> Some ERR_HTTP_HEADERS_SENT)"
    and "console w = l # (case en of Ended \<Rightarrow> [] | Failed m \<Rightarrow> [ProxyErrorLog m])"
proof -
  define w1 where "w1 = (console_log l (initial mt))\<lparr> requests := [proxyOptions req t] \<rparr>"
  define w2 where "w2 = onProxyResponse status hs w1"
  define w3 where "w3 = fold res_write cs w2"
  have w2: "w2 = w1\<lparr> res := (res w1)\<lparr> outHeaders := (outHeaders (res w1))
         (''access-control-allow-origin'' \<mapsto> ''*'',
          ''access-control-allow-methods'' \<mapsto> ''GET, POST, PUT, DELETE, OPTIONS'',
          ''access-control-allow-headers'' \<mapsto> ''Content-Type, Authorization, X-Requested-With'',
          ''access-control-allow-credentials'' \<mapsto> ''true'') ++
          map_of (rev (map (\<lambda>h. (toLowerCase (fst h), snd h)) hs)),
        statusCode := status, headersSent := True \<rparr> \<rparr>"
    unfolding w2_def by (rule onProxyResponse_open) (simp_all add: w1_def logged_initial)
  have t3: "thrown w3 = None" by (simp add: w3_def w2 w1_def logged_initial)
  have s3: "headersSent (res w3)"
    unfolding w3_def by (rule headersSent_fold_res_write) (simp add: w2)
  have f3: "\<not> finished (res w3)" by (simp add: w3_def w2 w1_def logged_initial)
  have wr3: "written (res w3) =
      (if mt \<noteq> ''HEAD'' \<and> \<not> noBodyStatus status then concat cs else [])"
    unfolding w3_def using written_fold_res_write [of w2 cs]
    by (simp add: w2 w1_def logged_initial sendsBody_def)
  have c3: "console w3 = [l]" by (simp add: w3_def w2 w1_def logged_initial)
  have st3: "statusCode (res w3) = status" by (simp add: w3_def w2)
  have h3: "outHeaders (res w3) =
          [''access-control-allow-origin'' \<mapsto> ''*'',
           ''access-control-allow-methods'' \<mapsto> ''GET, POST, PUT, DELETE, OPTIONS'',
           ''access-control-allow-headers'' \<mapsto> ''Content-Type, Authorization, X-Requested-With'',
           ''access-control-allow-credentials'' \<mapsto> ''true''] ++
          map_of (rev (map (\<lambda>h. (toLowerCase (fst h), snd h)) hs))"
    by (simp add: w3_def w2 w1_def logged_initial)
  have w: "w = (case en of Ended \<Rightarrow> res_end [] w3 | Failed m \<Rightarrow> onProxyError m w3)"
    using assms(1)
    by (cases en) (simp_all add: w_def proxyRequest_def Let_def w3_def w2_def w1_def logged_initial)
  show "statusCode (res w) = status"
    using st3 t3 s3 by (cases en) (simp_all add: w res_end_def onProxyError_sent)
  show "outHeaders (res w) =
          [''access-control-allow-origin'' \<mapsto> ''*'',
           ''access-control-allow-methods'' \<mapsto> ''GET, POST, PUT, DELETE, OPTIONS'',
           ''access-control-allow-headers'' \<mapsto> ''Content-Type, Authorization, X-Requested-With'',
           ''access-control-allow-credentials'' \<mapsto> ''true''] ++
          map_of (rev (map (\<lambda>h. (toLowerCase (fst h), snd h)) hs))"
    using h3 t3 s3 by (cases en) (simp_all add: w res_end_def onProxyError_sent)
  show "written (res w) =
      (if mt \<noteq> ''HEAD'' \<and> \<not> noBodyStatus status then concat cs else [])"
    using wr3 t3 s3 by (cases en) (simp_all add: w res_end_def onProxyError_sent)
  show "headersSent (res w)"
    using t3 s3 by (cases en) (simp_all add: w res_end_def onProxyError_sent)
  show "finished (res w) = (en = Ended)"
    using f3 t3 s3 by (cases en) (simp_all add: w res_end_def onProxyError_sent)
  show "thrown w = (case en of Ended \<Rightarrow> None | Failed m \<Rightarrow> Some ERR_HTTP_HEADERS_SENT)"
    using t3 s3 by (cases en) (simp_all add: w res_end_def onProxyError_sent)
  show "console w = l # (case en of Ended \<Rightarrow> [] | Failed m \<Rightarrow> [ProxyErrorLog m])"
    using c3 t3 s3 by (cases en) (simp_all add: w res_end_def onProxyError_sent)
qed

text \<open>
  What the \<open>error\<close> handler does when the head of a relayed response has already been
  sent: the error is logged, then \<open>setCORSHeaders\<close> throws \<open>ERR_HTTP_HEADERS_SENT\<close>. The
  exception is caught nowhere, the response keeps the upstream status and the chunks
  written so far, and \<open>res.end\<close> is never called.
\<close>

lemma midstream_failure:
  assumes "req_method req \<noteq> ''OPTIONS''"
    and "fundTarget req = Some t"
    and "upstream e (proxyOptions req t) = Responded status hs cs (Failed message)"
  shows "thrown (handler e req) = Some ERR_HTTP_HEADERS_SENT \<and>
     \<not> finished (res (handler e req)) \<and>
     statusCode (res (handler e req)) = status \<and>
     written (res (handler e req)) =
       (if req_method req \<noteq> ''HEAD'' \<and> \<not> noBodyStatus status then concat cs else []) \<and>
     console (handler e req) =
       [RequestLog (req_method req) (pathname req), ProxyErrorLog message]"
  unfolding handler_proxied [OF assms(1,2)]
  by (simp add: proxy_responded [OF assms(3)])

section \<open>Lemmas about static files\<close>

lemma notFound_open:
  assumes "thrown w = None" "\<not> headersSent (res w)" "\<not> finished (res w)"
  shows "notFound w =
     w\<lparr> res := (res w)\<lparr> outHeaders := (outHeaders (res w))(''content-type'' \<mapsto> ''text/plain''),
        statusCode := 404, headersSent := True,
        written := written (res w) @ (if hasBody (res w) then ''File not found'' else []),
        finished := True \<rparr> \<rparr>"
  using assms
  by (simp add: notFound_def writeHead_def storeHeader_def res_end_def lower_names
        sendsBody_def noBodyStatus_def)

lemma serveStaticFile_read:
  assumes "thrown w = None" "\<not> headersSent (res w)" "\<not> finished (res w)"
    and "fs_readFile e p = Some data"
  shows "serveStaticFile e p w =
     w\<lparr> fs_calls := fs_calls w @ [ReadFile p],
        res := (res w)\<lparr> outHeaders := (outHeaders (res w))
         (''access-control-allow-origin'' \<mapsto> ''*'',
          ''access-control-allow-methods'' \<mapsto> ''GET, POST, PUT, DELETE, OPTIONS'',
          ''access-control-allow-headers'' \<mapsto> ''Content-Type, Authorization, X-Requested-With'',
          ''access-control-allow-credentials'' \<mapsto> ''true'',
          ''content-type'' \<mapsto> orElse (mimeTypes (extname p)) ''text/plain''),
        statusCode := 200, headersSent := True,
        written := written (res w) @ (if hasBody (res w) then data else []),
        finished := True \<rparr> \<rparr>"
  using assms
  by (simp add: serveStaticFile_def Let_def setCORSHeaders_open writeHead_def storeHeader_def
        res_end_def lower_names orElse_def sendsBody_def noBodyStatus_def)

lemma serveStaticFile_unreadable:
  assumes "thrown w = None" "\<not> headersSent (res w)" "\<not> finished (res w)"
    and "fs_readFile e p = None"
  shows "serveStaticFile e p w =
     w\<lparr> fs_calls := fs_calls w @ [ReadFile p],
        res := (res w)\<lparr> outHeaders := (outHeaders (res w))(''content-type'' \<mapsto> ''text/plain''),
        statusCode := 404, headersSent := True,
        written := written (res w) @ (if hasBody (res w) then ''File not found'' else []),
        finished := True \<rparr> \<rparr>"
  using assms
  by (simp add: serveStaticFile_def notFound_open)

lemma static_outcome:
  assumes "req_method req \<noteq> ''OPTIONS''" "fundTarget req = None"
  shows "(statusCode (res (handler e req)) = 200 \<and> carriesCORS (res (handler e req))) \<or>
         (statusCode (res (handler e req)) = 404 \<and>
          written (res (handler e req)) =
            (if req_method req = ''HEAD'' then [] else ''File not found''))"
  unfolding handler_static [OF assms] logged_initial resolveStatic_def Let_def
  by (cases "fs_readFile e (staticPath e req)"; cases "fs_readFile e (staticPath e req @ ''.html'')")
     (simp_all add: notFound_open serveStaticFile_read serveStaticFile_unreadable
        carriesCORS_def getHeader_def lower_names)

section \<open>Lemmas about the default document\<close>

lemma normStep_empty: "normStep a out [] = out"
  by (simp add: normStep_def)

lemma path_join_default:
  assumes "d \<noteq> []"
  shows "path_join d ''/fund_calculator.html'' = path_join d ''fund_calculator.html''"
  using assms
  by (simp add: path_join_def normalize_def normalizeString_def split_append_sep normStep_empty)

lemma join_snoc: "join sep (xs @ [x]) = (if xs = [] then x else join sep xs @ sep @ x)"
  by (induction sep xs rule: join.induct) auto

lemma extname_default:
  assumes "pre = [] \<or> last pre = CHR ''/''"
  shows "extname (pre @ ''fund_calculator.html'') = ''.html''"
proof (cases pre rule: rev_cases)
  case Nil
  then show ?thesis by (simp add: extname_def)
next
  case (snoc ys y)
  with assms have "y = CHR ''/''" by simp
  with snoc show ?thesis by (simp add: extname_def)
qed

lemma extname_path_join_default:
  assumes "d \<noteq> []"
  shows "extname (path_join d ''fund_calculator.html'') = ''.html''"
proof -
  define a where "a = (hd d = CHR ''/'')"
  define out where "out = foldl (normStep (\<not> a)) [] (split d CHR ''/'')"
  define pre where "pre = (if a then ''/'' else []) @ (if out = [] then [] else join ''/'' out @ ''/'')"
  have "path_join d ''fund_calculator.html'' = pre @ ''fund_calculator.html''"
    using assms
    by (simp add: path_join_def normalize_def normalizeString_def split_append_sep normStep_def
          join_snoc a_def out_def pre_def)
  moreover have "pre = [] \<or> last pre = CHR ''/''"
    by (simp add: pre_def)
  ultimately show ?thesis
    by (simp only: extname_default)
qed

lemma resolveStatic_same_path:
  assumes "staticPath e r1 = staticPath e r2"
  shows "res (resolveStatic e r1 (console_log l1 (initial mt))) =
           res (resolveStatic e r2 (console_log l2 (initial mt))) \<and>
         fs_calls (resolveStatic e r1 (console_log l1 (initial mt))) =
           fs_calls (resolveStatic e r2 (console_log l2 (initial mt)))"
  unfolding logged_initial resolveStatic_def Let_def assms
  by (cases "fs_readFile e (staticPath e r2)";
      cases "fs_readFile e (staticPath e r2 @ ''.html'')")
     (simp_all add: notFound_open serveStaticFile_read serveStaticFile_unreadable)

lemma fundTarget_root: "pathname r = ''/'' \<Longrightarrow> fundTarget r = None"
  by (simp add: fundTarget_def startsWith_def)

lemma fundTarget_default: "pathname r = ''/fund_calculator.html'' \<Longrightarrow> fundTarget r = None"
  by (simp add: fundTarget_def startsWith_def)

section \<open>Properties of the server\<close>

text \<open>
  C1. On the history route \<open>/api/fund/history/{code}\<close> with a six-digit code (any
  method but OPTIONS, which is answered before routing), the request is handed to
  the proxy forwarder with the history URL of that code, and the \<open>pageSize\<close> in the
  path sent upstream is 120 when \<open>days\<close> is absent, not finite or not positive, and
  otherwise \<open>days\<close> clamped to the range from 60 to 365. The number is sent as its
  decimal numeral: digits only, no leading zero, denoting \<open>pageSize\<close>; with \<open>days\<close>
  absent the path reads \<open>pageSize=120\<close>.
\<close>

theorem history_pageSize:
  assumes "req_method req \<noteq> ''OPTIONS''"
    and "test_d6 c"
    and "pathname req = ''/api/fund/history/'' @ c"
  shows "let days = parseInt (toString (query_days req)); pageSize = pageSizeOf days in
     handler e req =
       proxyRequest e req (historyUrl c pageSize)
         (console_log (RequestLog (req_method req) (pathname req)) (initial (req_method req))) \<and>
     map up_path (requests (handler e req)) =
       [''/FundMNewApi/FundMNHisNetList?FCODE='' @ c @ ''&pageIndex=1&pageSize='' @
        decimal (nat pageSize) @
        ''&appType=ttjj&product=EFund&plat=Iphone&version=6.3.8&deviceid=00000000-0000-0000-0000-000000000000''] \<and>
     (query_days req = Undefined \<longrightarrow>
        pageSize = 120 \<and>
        map up_path (requests (handler e req)) =
          [''/FundMNewApi/FundMNHisNetList?FCODE='' @ c @ ''&pageIndex=1&pageSize=120&appType=ttjj&product=EFund&plat=Iphone&version=6.3.8&deviceid=00000000-0000-0000-0000-000000000000'']) \<and>
     (days = NaN \<or> days = PosInfinity \<or> days = NegInfinity \<longrightarrow> pageSize = 120) \<and>
     (\<forall>d. days = Finite d \<and> d \<le> 0 \<longrightarrow> pageSize = 120) \<and>
     (\<forall>d. days = Finite d \<and> 0 < d \<longrightarrow>
        pageSize = min (max d 60) 365 \<and> 60 \<le> pageSize \<and> pageSize \<le> 365) \<and>
     list_all isDigit (decimal (nat pageSize)) \<and>
     hd (decimal (nat pageSize)) \<noteq> CHR ''0'' \<and>
     digitsValue (decimal (nat pageSize)) = pageSize \<and>
     (pageSize = 120 \<longrightarrow> decimal (nat pageSize) = ''120'') \<and>
     (pageSize = 60 \<longrightarrow> decimal (nat pageSize) = ''60'') \<and>
     (pageSize = 365 \<longrightarrow> decimal (nat pageSize) = ''365'')"
proof -
  define days where "days = parseInt (toString (query_days req))"
  define ps where "ps = pageSizeOf days"
  have target: "fundTarget req = Some (historyUrl c ps)"
    unfolding ps_def days_def by (rule fundTarget_history [OF assms(2,3)])
  have run: "handler e req =
      proxyRequest e req (historyUrl c ps)
        (console_log (RequestLog (req_method req) (pathname req)) (initial (req_method req)))"
    by (rule handler_proxied [OF assms(1) target])
  have sent: "map up_path (requests (handler e req)) =
      [''/FundMNewApi/FundMNHisNetList?FCODE='' @ c @ ''&pageIndex=1&pageSize='' @
        decimal (nat ps) @
        ''&appType=ttjj&product=EFund&plat=Iphone&version=6.3.8&deviceid=00000000-0000-0000-0000-000000000000'']"
    unfolding run
    by (simp add: requests_proxyRequest proxyOptions_def url_parse_history [OF assms(2)])
  have absent: "ps = 120" if "query_days req = Undefined"
    using that by (simp add: ps_def days_def parseInt_undefined pageSizeOf_def)
  have absent_path: "map up_path (requests (handler e req)) =
      [''/FundMNewApi/FundMNHisNetList?FCODE='' @ c @ ''&pageIndex=1&pageSize=120&appType=ttjj&product=EFund&plat=Iphone&version=6.3.8&deviceid=00000000-0000-0000-0000-000000000000'']"
    if "query_days req = Undefined"
    using sent absent [OF that] by (simp add: decimal_examples)
  have nonfinite: "ps = 120" if "days = NaN \<or> days = PosInfinity \<or> days = NegInfinity"
    using that by (auto simp: ps_def pageSizeOf_def)
  have nonpos: "ps = 120" if "days = Finite d \<and> d \<le> 0" for d
    using that by (simp add: ps_def pageSizeOf_def)
  have clamp: "ps = min (max d 60) 365 \<and> 60 \<le> ps \<and> ps \<le> 365" if "days = Finite d \<and> 0 < d" for d
    using that by (auto simp: ps_def pageSizeOf_def)
  have bounds: "60 \<le> ps" "ps \<le> 365"
    using pageSizeOf_bounds [of days] by (simp_all add: ps_def)
  have digits: "list_all isDigit (decimal (nat ps))"
    by (rule isDigit_decimal)
  have lead: "hd (decimal (nat ps)) \<noteq> CHR ''0''"
    using bounds by (intro hd_decimal) simp
  have val: "digitsValue (decimal (nat ps)) = ps"
    using bounds by (simp add: digitsValue_decimal)
  have lits: "ps = 120 \<longrightarrow> decimal (nat ps) = ''120''" "ps = 60 \<longrightarrow> decimal (nat ps) = ''60''"
    "ps = 365 \<longrightarrow> decimal (nat ps) = ''365''"
    by (simp_all add: decimal_examples)
  show ?thesis
    unfolding Let_def days_def [symmetric] ps_def [symmetric]
    using run sent absent absent_path nonfinite nonpos clamp digits lead val lits
    by blast
qed

theorem history_pageSize_witness:
  "test_d6 ''161725'' \<and>
   req_method (request ''GET'' ''/api/fund/history/161725'' Undefined) \<noteq> ''OPTIONS'' \<and>
   pathname (request ''GET'' ''/api/fund/history/161725'' Undefined) =
     ''/api/fund/history/'' @ ''161725'' \<and>
   map up_path (requests (handler exampleEnv
      (request ''GET'' ''/api/fund/history/161725'' Undefined))) =
     [''/FundMNewApi/FundMNHisNetList?FCODE=161725&pageIndex=1&pageSize=120&appType=ttjj&product=EFund&plat=Iphone&version=6.3.8&deviceid=00000000-0000-0000-0000-000000000000''] \<and>
   parseInt ''500'' = Finite 500 \<and>
   map up_path (requests (handler exampleEnv
      (request ''GET'' ''/api/fund/history/161725'' (Str ''500'')))) =
     [''/FundMNewApi/FundMNHisNetList?FCODE=161725&pageIndex=1&pageSize=365&appType=ttjj&product=EFund&plat=Iphone&version=6.3.8&deviceid=00000000-0000-0000-0000-000000000000''] \<and>
   parseInt ''5'' = Finite 5 \<and>
   map up_path (requests (handler exampleEnv
      (request ''GET'' ''/api/fund/history/161725'' (Str ''5'')))) =
     [''/FundMNewApi/FundMNHisNetList?FCODE=161725&pageIndex=1&pageSize=60&appType=ttjj&product=EFund&plat=Iphone&version=6.3.8&deviceid=00000000-0000-0000-0000-000000000000''] \<and>
   parseInt ''90'' = Finite 90 \<and>
   map up_path (requests (handler exampleEnv
      (request ''GET'' ''/api/fund/history/161725'' (Str ''90'')))) =
     [''/FundMNewApi/FundMNHisNetList?FCODE=161725&pageIndex=1&pageSize=90&appType=ttjj&product=EFund&plat=Iphone&version=6.3.8&deviceid=00000000-0000-0000-0000-000000000000''] \<and>
   parseInt ''-7'' = Finite (- 7) \<and>
   map up_path (requests (handler exampleEnv
      (request ''GET'' ''/api/fund/history/161725'' (Str ''-7'')))) =
     [''/FundMNewApi/FundMNHisNetList?FCODE=161725&pageIndex=1&pageSize=120&appType=ttjj&product=EFund&plat=Iphone&version=6.3.8&deviceid=00000000-0000-0000-0000-000000000000''] \<and>
   parseInt ''soon'' = NaN \<and>
   map up_path (requests (handler exampleEnv
      (request ''GET'' ''/api/fund/history/161725'' (Str ''soon'')))) =
     [''/FundMNewApi/FundMNHisNetList?FCODE=161725&pageIndex=1&pageSize=120&appType=ttjj&product=EFund&plat=Iphone&version=6.3.8&deviceid=00000000-0000-0000-0000-000000000000'']"
proof -
  have h2: "test_d6 ''161725''" by (simp add: test_d6_def isDigit_def)
  have h1: "req_method (request ''GET'' ''/api/fund/history/161725'' q) \<noteq> ''OPTIONS''" for q
    by (simp add: request_def)
  have h3: "pathname (request ''GET'' ''/api/fund/history/161725'' q) =
      ''/api/fund/history/'' @ ''161725''" for q
    by (simp add: request_def)
  have qd: "query_days (request ''GET'' ''/api/fund/history/161725'' q) = q" for q
    by (simp add: request_def)
  have p500: "parseInt ''500'' = Finite 500"
    and p5: "parseInt ''5'' = Finite 5"
    and p90: "parseInt ''90'' = Finite 90"
    and pneg: "parseInt ''-7'' = Finite (- 7)"
    and pnan: "parseInt ''soon'' = NaN"
    by (simp_all add: parseInt_def trimStart.simps whiteSpace_def startsWith_def isDigit_def
          digitsValue_def digitVal_def)
  note T = history_pageSize [OF h1 h2 h3, of _ exampleEnv, unfolded Let_def qd]
  have t0: "map up_path (requests (handler exampleEnv
      (request ''GET'' ''/api/fund/history/161725'' Undefined))) = [''/FundMNewApi/FundMNHisNetList?FCODE=161725&pageIndex=1&pageSize=120&appType=ttjj&product=EFund&plat=Iphone&version=6.3.8&deviceid=00000000-0000-0000-0000-000000000000'']"
    using T [of Undefined, THEN conjunct2, THEN conjunct2, THEN conjunct1] by simp
  have t500: "map up_path (requests (handler exampleEnv
      (request ''GET'' ''/api/fund/history/161725'' (Str ''500'')))) = [''/FundMNewApi/FundMNHisNetList?FCODE=161725&pageIndex=1&pageSize=365&appType=ttjj&product=EFund&plat=Iphone&version=6.3.8&deviceid=00000000-0000-0000-0000-000000000000'']"
    using T [of "Str ''500''", THEN conjunct2, THEN conjunct1]
    by (simp add: p500 pageSizeOf_def decimal_examples)
  have t5: "map up_path (requests (handler exampleEnv
      (request ''GET'' ''/api/fund/history/161725'' (Str ''5'')))) = [''/FundMNewApi/FundMNHisNetList?FCODE=161725&pageIndex=1&pageSize=60&appType=ttjj&product=EFund&plat=Iphone&version=6.3.8&deviceid=00000000-0000-0000-0000-000000000000'']"
    using T [of "Str ''5''", THEN conjunct2, THEN conjunct1]
    by (simp add: p5 pageSizeOf_def decimal_examples)
  have t90: "map up_path (requests (handler exampleEnv
      (request ''GET'' ''/api/fund/history/161725'' (Str ''90'')))) = [''/FundMNewApi/FundMNHisNetList?FCODE=161725&pageIndex=1&pageSize=90&appType=ttjj&product=EFund&plat=Iphone&version=6.3.8&deviceid=00000000-0000-0000-0000-000000000000'']"
    using T [of "Str ''90''", THEN conjunct2, THEN conjunct1]
    by (simp add: p90 pageSizeOf_def decimal_examples)
  have tneg: "map up_path (requests (handler exampleEnv
      (request ''GET'' ''/api/fund/history/161725'' (Str ''-7'')))) = [''/FundMNewApi/FundMNHisNetList?FCODE=161725&pageIndex=1&pageSize=120&appType=ttjj&product=EFund&plat=Iphone&version=6.3.8&deviceid=00000000-0000-0000-0000-000000000000'']"
    using T [of "Str ''-7''", THEN conjunct2, THEN conjunct1]
    by (simp add: pneg pageSizeOf_def decimal_examples)
  have tnan: "map up_path (requests (handler exampleEnv
      (request ''GET'' ''/api/fund/history/161725'' (Str ''soon'')))) = [''/FundMNewApi/FundMNHisNetList?FCODE=161725&pageIndex=1&pageSize=120&appType=ttjj&product=EFund&plat=Iphone&version=6.3.8&deviceid=00000000-0000-0000-0000-000000000000'']"
    using T [of "Str ''soon''", THEN conjunct2, THEN conjunct1]
    by (simp add: pnan pageSizeOf_def decimal_examples)
  show ?thesis
    using h2 h1 [of Undefined] h3 [of Undefined] t0 p500 t500 p5 t5 p90 t90 pneg tneg pnan tnan
    by blast
qed

text \<open>
  C2. For every six-digit fund code \<open>c\<close>, a request to \<open>/api/fund/{c}\<close> (any method
  but OPTIONS) builds exactly the target \<open>https://fundgz.1234567.com.cn/js/{c}.js\<close>
  and hands the request to the proxy forwarder for it, which issues one upstream
  request, to that host and path.
\<close>

theorem snapshot_target:
  assumes "req_method req \<noteq> ''OPTIONS''"
    and "test_d6 c"
    and "pathname req = ''/api/fund/'' @ c"
  shows "fundTarget req = Some (''https://fundgz.1234567.com.cn/js/'' @ c @ ''.js'') \<and>
     handler e req =
       proxyRequest e req (''https://fundgz.1234567.com.cn/js/'' @ c @ ''.js'')
         (console_log (RequestLog (req_method req) (pathname req)) (initial (req_method req))) \<and>
     requests (handler e req) =
       [\<lparr> up_protocol = Https, up_hostname = ''fundgz.1234567.com.cn'', up_port = Default 443,
          up_path = ''/js/'' @ c @ ''.js'', up_method = req_method req,
          up_headers = proxyHeaders, up_body = req_body req \<rparr>]"
proof -
  have target: "fundTarget req = Some (snapshotUrl c)"
    by (rule fundTarget_snapshot [OF assms(2,3)])
  have run: "handler e req =
      proxyRequest e req (snapshotUrl c)
        (console_log (RequestLog (req_method req) (pathname req)) (initial (req_method req)))"
    by (rule handler_proxied [OF assms(1) target])
  have opts: "proxyOptions req (snapshotUrl c) =
      \<lparr> up_protocol = Https, up_hostname = ''fundgz.1234567.com.cn'', up_port = Default 443,
        up_path = ''/js/'' @ c @ ''.js'', up_method = req_method req,
        up_headers = proxyHeaders, up_body = req_body req \<rparr>"
    by (simp add: proxyOptions_def url_parse_snapshot [OF assms(2)] startsWith_https_snapshot)
  have sent: "requests (handler e req) = [proxyOptions req (snapshotUrl c)]"
    unfolding run by (simp add: requests_proxyRequest)
  show ?thesis
    using target run sent opts by (simp add: snapshotUrl_def)
qed

theorem snapshot_target_witness:
  "req_method (request ''GET'' ''/api/fund/161725'' Undefined) \<noteq> ''OPTIONS'' \<and>
   test_d6 ''161725'' \<and>
   pathname (request ''GET'' ''/api/fund/161725'' Undefined) = ''/api/fund/'' @ ''161725'' \<and>
   fundTarget (request ''GET'' ''/api/fund/161725'' Undefined) =
     Some ''https://fundgz.1234567.com.cn/js/161725.js'' \<and>
   map up_path (requests (handler exampleEnv (request ''GET'' ''/api/fund/161725'' Undefined))) =
     [''/js/161725.js'']"
proof -
  let ?r = "request ''GET'' ''/api/fund/161725'' Undefined"
  have h1: "req_method ?r \<noteq> ''OPTIONS''" by (simp add: request_def)
  have h2: "test_d6 ''161725''" by (simp add: test_d6_def isDigit_def)
  have h3: "pathname ?r = ''/api/fund/'' @ ''161725''" by (simp add: request_def)
  note T = snapshot_target [OF h1 h2 h3, of exampleEnv]
  have t1: "fundTarget ?r = Some ''https://fundgz.1234567.com.cn/js/161725.js''"
    using T [THEN conjunct1] by simp
  have t3: "map up_path (requests (handler exampleEnv ?r)) = [''/js/161725.js'']"
    using T [THEN conjunct2, THEN conjunct2] by simp
  show ?thesis
    using h1 h2 h3 t1 t3 by simp
qed

text \<open>
  C3, as stated, fails: on the history route the code is taken by
  \<open>segments.pop() || segments.pop()\<close>, so a path that ends in a slash has an empty
  trailing segment, which does not match \<open>^\d{6}$\<close>, and is proxied all the same when
  the segment before the slash is a six-digit code.
\<close>

theorem trailing_slash_history_proxied:
  "startsWith (pathname (request ''GET'' ''/api/fund/history/161725/'' Undefined))
     ''/api/fund/history/'' \<and>
   last (split (pathname (request ''GET'' ''/api/fund/history/161725/'' Undefined)) CHR ''/'') = [] \<and>
   \<not> test_d6 [] \<and>
   fundTarget (request ''GET'' ''/api/fund/history/161725/'' Undefined) =
     Some ''https://fundmobapi.eastmoney.com/FundMNewApi/FundMNHisNetList?FCODE=161725&pageIndex=1&pageSize=120&appType=ttjj&product=EFund&plat=Iphone&version=6.3.8&deviceid=00000000-0000-0000-0000-000000000000'' \<and>
   map up_hostname (requests (handler exampleEnv
      (request ''GET'' ''/api/fund/history/161725/'' Undefined))) = [''fundmobapi.eastmoney.com'']"
proof -
  let ?r = "request ''GET'' ''/api/fund/history/161725/'' Undefined"
  have pre: "startsWith (pathname ?r) ''/api/fund/history/''"
    by (simp add: request_def startsWith_def)
  have seg: "split (pathname ?r) CHR ''/'' = [[], ''api'', ''fund'', ''history'', ''161725'', []]"
    by (simp add: request_def)
  have dec: "decimal 120 = ''120''" by (simp add: decimal.simps)
  have valid: "test_d6 ''161725''" by (simp add: test_d6_def isDigit_def)
  have target: "fundTarget ?r = Some (historyUrl ''161725'' 120)"
    by (simp add: fundTarget_def pre seg popOrPop_def pop_def validCode_def valid Let_def)
       (simp add: request_def parseInt_undefined pageSizeOf_def)
  have notopt: "req_method ?r \<noteq> ''OPTIONS''" by (simp add: request_def)
  have "requests (handler exampleEnv ?r) = [proxyOptions ?r (historyUrl ''161725'' 120)]"
    unfolding handler_proxied [OF notopt target] by (simp add: requests_proxyRequest)
  then have sent: "map up_hostname (requests (handler exampleEnv ?r)) = [''fundmobapi.eastmoney.com'']"
    by (simp add: proxyOptions_def url_parse_history [OF valid])
  show ?thesis
    using pre sent by (simp add: seg target historyUrl_def dec test_d6_def)
qed

text \<open>
  C3, amended. A request (any method but OPTIONS) whose path starts with \<open>/api/fund/\<close>
  or \<open>/api/fund/history/\<close> and whose trailing path segment does not match
  \<open>^\d{6}$\<close> builds no proxy target, issues no upstream request and is handled by
  static-file resolution, unless the path is on the history route, ends in a slash
  and has a six-digit segment before that slash.
\<close>

theorem invalid_code_falls_through:
  assumes "req_method req \<noteq> ''OPTIONS''"
    and "startsWith (pathname req) ''/api/fund/'' \<or> startsWith (pathname req) ''/api/fund/history/''"
    and "\<not> test_d6 (last (split (pathname req) CHR ''/''))"
    and "\<not> (startsWith (pathname req) ''/api/fund/history/'' \<and>
            last (split (pathname req) CHR ''/'') = [] \<and>
            test_d6 (last (butlast (split (pathname req) CHR ''/''))))"
  shows "fundTarget req = None \<and>
     requests (handler e req) = [] \<and>
     handler e req =
       resolveStatic e req (console_log (RequestLog (req_method req) (pathname req)) (initial (req_method req)))"
proof -
  have target: "fundTarget req = None"
    using assms(3,4) split_nonempty [of "pathname req" "CHR ''/''"]
    by (auto simp: fundTarget_def popOrPop_def pop_def validCode_def Let_def
          split: option.splits if_splits)
  have run: "handler e req =
      resolveStatic e req (console_log (RequestLog (req_method req) (pathname req)) (initial (req_method req)))"
    by (rule handler_static [OF assms(1) target])
  show ?thesis
    using target run by simp
qed

theorem invalid_code_falls_through_witness:
  "req_method (request ''GET'' ''/api/fund/history/16172x/'' (Str ''90'')) \<noteq> ''OPTIONS'' \<and>
   startsWith (pathname (request ''GET'' ''/api/fund/history/16172x/'' (Str ''90'')))
     ''/api/fund/history/'' \<and>
   last (split (pathname (request ''GET'' ''/api/fund/history/16172x/'' (Str ''90''))) CHR ''/'') = [] \<and>
   last (butlast (split (pathname (request ''GET'' ''/api/fund/history/16172x/'' (Str ''90'')))
     CHR ''/'')) = ''16172x'' \<and>
   \<not> test_d6 ''16172x'' \<and>
   fundTarget (request ''GET'' ''/api/fund/history/16172x/'' (Str ''90'')) = None \<and>
   requests (handler exampleEnv (request ''GET'' ''/api/fund/history/16172x/'' (Str ''90''))) = []"
proof -
  let ?r = "request ''GET'' ''/api/fund/history/16172x/'' (Str ''90'')"
  have seg: "split (pathname ?r) CHR ''/'' = [[], ''api'', ''fund'', ''history'', ''16172x'', []]"
    by (simp add: request_def)
  have h1: "req_method ?r \<noteq> ''OPTIONS''" by (simp add: request_def)
  have pre: "startsWith (pathname ?r) ''/api/fund/history/''"
    by (simp add: request_def startsWith_def)
  then have h2: "startsWith (pathname ?r) ''/api/fund/'' \<or>
      startsWith (pathname ?r) ''/api/fund/history/''" by simp
  have bad: "\<not> test_d6 ''16172x''" by (simp add: test_d6_def isDigit_def)
  have h3: "\<not> test_d6 (last (split (pathname ?r) CHR ''/''))"
    by (simp add: seg test_d6_def)
  have h4: "\<not> (startsWith (pathname ?r) ''/api/fund/history/'' \<and>
      last (split (pathname ?r) CHR ''/'') = [] \<and>
      test_d6 (last (butlast (split (pathname ?r) CHR ''/''))))"
    using bad by (simp add: seg)
  note T = invalid_code_falls_through [OF h1 h2 h3 h4, of exampleEnv]
  show ?thesis
    using h1 pre bad T [THEN conjunct1] T [THEN conjunct2, THEN conjunct1] by (simp add: seg)
qed

text \<open>
  C4. A request with method OPTIONS, whatever its path, is answered with status 200,
  an empty body and the four CORS headers; no upstream request is issued, no file is
  looked up, and nothing is thrown.
\<close>

theorem options_preflight:
  assumes "req_method req = ''OPTIONS''"
  shows "statusCode (res (handler e req)) = 200 \<and>
     written (res (handler e req)) = [] \<and>
     finished (res (handler e req)) \<and>
     carriesCORS (res (handler e req)) \<and>
     dom (outHeaders (res (handler e req))) =
       {''access-control-allow-origin'', ''access-control-allow-methods'',
        ''access-control-allow-headers'', ''access-control-allow-credentials''} \<and>
     requests (handler e req) = [] \<and>
     fs_calls (handler e req) = [] \<and>
     thrown (handler e req) = None"
  using assms
  by (simp add: handler_def Let_def console_log_def initial_def setCORSHeaders_open
      writeHead_def res_end_def carriesCORS_def getHeader_def lower_names insert_commute)

theorem options_preflight_witness:
  "req_method (request ''OPTIONS'' ''/api/fund/161725'' Undefined) = ''OPTIONS'' \<and>
   statusCode (res (handler exampleEnv (request ''OPTIONS'' ''/api/fund/161725'' Undefined))) = 200 \<and>
   written (res (handler exampleEnv (request ''OPTIONS'' ''/api/fund/161725'' Undefined))) = [] \<and>
   requests (handler exampleEnv (request ''OPTIONS'' ''/api/fund/161725'' Undefined)) = []"
proof -
  let ?r = "request ''OPTIONS'' ''/api/fund/161725'' Undefined"
  have h: "req_method ?r = ''OPTIONS''" by (simp add: request_def)
  note T = options_preflight [OF h, of exampleEnv]
  show ?thesis
    using h T by blast
qed

text \<open>
  C5, as stated, fails twice. The three 404 branches write their head without calling
  \<open>setCORSHeaders\<close>, so a ``File not found'' reply has no CORS header; and a relayed
  upstream response is sent with \<open>writeHead(proxyRes.statusCode, proxyRes.headers)\<close>,
  so an upstream \<open>Access-Control-Allow-Origin\<close> replaces the \<open>*\<close> set just before.
\<close>

theorem cors_missing_or_replaced:
  "statusCode (res (handler exampleEnv (request ''GET'' ''/missing.png'' Undefined))) = 404 \<and>
   getHeader (res (handler exampleEnv (request ''GET'' ''/missing.png'' Undefined)))
     ''Access-Control-Allow-Origin'' = None \<and>
   \<not> carriesCORS (res (handler exampleEnv (request ''GET'' ''/missing.png'' Undefined))) \<and>
   statusCode (res (handler exampleEnv (request ''GET'' ''/api/fund/161725'' Undefined))) = 200 \<and>
   getHeader (res (handler exampleEnv (request ''GET'' ''/api/fund/161725'' Undefined)))
     ''Access-Control-Allow-Origin'' = Some ''https://fund.eastmoney.com'' \<and>
   \<not> carriesCORS (res (handler exampleEnv (request ''GET'' ''/api/fund/161725'' Undefined)))"
proof -
  let ?s = "request ''GET'' ''/missing.png'' Undefined"
  let ?p = "request ''GET'' ''/api/fund/161725'' Undefined"
  have s1: "req_method ?s \<noteq> ''OPTIONS''" by (simp add: request_def)
  have s2: "fundTarget ?s = None"
    by (simp add: fundTarget_def request_def startsWith_def)
  have s3: "staticPath exampleEnv ?s = ''/srv/jojo/missing.png''"
    by (simp add: staticPath_def path_join_def normalize_def normalizeString_def normStep_def
          exampleEnv_def request_def)
  have s4: "extname ''/srv/jojo/missing.png'' = ''.png''"
    by (simp add: extname_def)
  have s5: "\<not> fs_access exampleEnv ''/srv/jojo/missing.png''"
    by (simp add: exampleEnv_def)
  have static: "res (handler exampleEnv ?s) =
      \<lparr> statusCode = 404, outHeaders = [''content-type'' \<mapsto> ''text/plain''],
        headersSent = True, written = ''File not found'', finished = True, hasBody = True \<rparr>"
    unfolding handler_static [OF s1 s2] logged_initial resolveStatic_def Let_def s3
    using s5 by (simp add: s4 notFound_open request_def)
  have p1: "req_method ?p \<noteq> ''OPTIONS''" by (simp add: request_def)
  have p2: "test_d6 ''161725''" by (simp add: test_d6_def isDigit_def)
  have p3: "pathname ?p = ''/api/fund/'' @ ''161725''" by (simp add: request_def)
  have p4: "fundTarget ?p = Some (snapshotUrl ''161725'')"
    by (rule fundTarget_snapshot [OF p2 p3])
  have p5: "upstream exampleEnv (proxyOptions ?p (snapshotUrl ''161725'')) =
      Responded 200 [(''content-type'', ''text/javascript''),
        (''access-control-allow-origin'', ''https://fund.eastmoney.com'')]
        [''jsonpgz('', ''{});''] Ended"
    by (simp add: exampleEnv_def proxyOptions_def url_parse_snapshot [OF p2])
  have lower: "toLowerCase ''content-type'' = ''content-type''"
    "toLowerCase ''access-control-allow-origin'' = ''access-control-allow-origin''"
    by (simp_all add: toLowerCase_def toLowerChar_def)
  have proxied: "statusCode (res (handler exampleEnv ?p)) = 200"
    "getHeader (res (handler exampleEnv ?p)) ''Access-Control-Allow-Origin'' =
       Some ''https://fund.eastmoney.com''"
    unfolding handler_proxied [OF p1 p4] getHeader_def
    by (simp_all add: proxy_responded(1,2) [OF p5] lower lower_names)
  show ?thesis
    using proxied by (simp add: static carriesCORS_def getHeader_def lower_names)
qed

text \<open>
  C5, amended. The four CORS headers, with the values of \<open>setCORSHeaders\<close>, are on the
  reply to OPTIONS, on a static file served with status 200 and on the proxy's own 500
  reply. A relayed upstream response carries all four as well, each with that value
  unless the upstream response has a header of the same name, whose value it then
  carries. A static request ends in one of two ways: 200 with the headers, or the
  ``File not found'' reply with status 404, about whose headers nothing is said here.
\<close>

theorem cors_on_responses:
  "(req_method req = ''OPTIONS'' \<longrightarrow> carriesCORS (res (handler e req))) \<and>
   (req_method req \<noteq> ''OPTIONS'' \<and> fundTarget req = None \<longrightarrow>
      (statusCode (res (handler e req)) = 200 \<and> carriesCORS (res (handler e req))) \<or>
      (statusCode (res (handler e req)) = 404 \<and>
       written (res (handler e req)) =
         (if req_method req = ''HEAD'' then [] else ''File not found''))) \<and>
   (\<forall>t m. req_method req \<noteq> ''OPTIONS'' \<and> fundTarget req = Some t \<and>
      upstream e (proxyOptions req t) = ConnectFailed m \<longrightarrow>
      statusCode (res (handler e req)) = 500 \<and> carriesCORS (res (handler e req))) \<and>
   (\<forall>t status hs cs en. req_method req \<noteq> ''OPTIONS'' \<and> fundTarget req = Some t \<and>
      upstream e (proxyOptions req t) = Responded status hs cs en \<longrightarrow>
      statusCode (res (handler e req)) = status \<and> relaysCORS hs (res (handler e req)))"
proof (intro conjI allI impI)
  assume "req_method req = ''OPTIONS''"
  then show "carriesCORS (res (handler e req))"
    by (simp add: handler_def Let_def logged_initial setCORSHeaders_open writeHead_def
          res_end_def carriesCORS_def getHeader_def lower_names)
next
  assume "req_method req \<noteq> ''OPTIONS'' \<and> fundTarget req = None"
  then show "(statusCode (res (handler e req)) = 200 \<and> carriesCORS (res (handler e req))) \<or>
      (statusCode (res (handler e req)) = 404 \<and>
       written (res (handler e req)) =
         (if req_method req = ''HEAD'' then [] else ''File not found''))"
    using static_outcome by blast
next
  fix t m
  assume a: "req_method req \<noteq> ''OPTIONS'' \<and> fundTarget req = Some t \<and>
      upstream e (proxyOptions req t) = ConnectFailed m"
  then have run: "handler e req =
      proxyRequest e req t (console_log (RequestLog (req_method req) (pathname req)) (initial (req_method req)))"
    by (simp add: handler_proxied)
  from a show "statusCode (res (handler e req)) = 500"
    unfolding run by (simp add: proxy_connect_failed)
  from a show "carriesCORS (res (handler e req))"
    unfolding run by (simp add: proxy_connect_failed carriesCORS_def getHeader_def lower_names)
next
  fix t status hs cs en
  assume a: "req_method req \<noteq> ''OPTIONS'' \<and> fundTarget req = Some t \<and>
      upstream e (proxyOptions req t) = Responded status hs cs en"
  then have run: "handler e req =
      proxyRequest e req t (console_log (RequestLog (req_method req) (pathname req)) (initial (req_method req)))"
    by (simp add: handler_proxied)
  from a have up: "upstream e (proxyOptions req t) = Responded status hs cs en" by simp
  show "statusCode (res (handler e req)) = status"
    unfolding run by (rule proxy_responded(1) [OF up])
  show "relaysCORS hs (res (handler e req))"
    unfolding run relaysCORS_def getHeader_def proxy_responded(2) [OF up] upstreamHeader_def
    by (simp add: lower_names map_add_def orElse_def split: option.splits)
qed

theorem cors_on_responses_witness:
  "req_method (request ''OPTIONS'' ''/x'' Undefined) = ''OPTIONS'' \<and>
   carriesCORS (res (handler exampleEnv (request ''OPTIONS'' ''/x'' Undefined))) \<and>
   req_method (request ''GET'' ''/api/fund/161725'' Undefined) \<noteq> ''OPTIONS'' \<and>
   fundTarget (request ''GET'' ''/api/fund/161725'' Undefined) = Some (snapshotUrl ''161725'') \<and>
   upstream offlineEnv
     (proxyOptions (request ''GET'' ''/api/fund/161725'' Undefined) (snapshotUrl ''161725'')) =
     ConnectFailed ''connect ECONNREFUSED'' \<and>
   statusCode (res (handler offlineEnv (request ''GET'' ''/api/fund/161725'' Undefined))) = 500 \<and>
   carriesCORS (res (handler offlineEnv (request ''GET'' ''/api/fund/161725'' Undefined))) \<and>
   upstream exampleEnv
     (proxyOptions (request ''GET'' ''/api/fund/161725'' Undefined) (snapshotUrl ''161725'')) =
     Responded 200 [(''content-type'', ''text/javascript''),
        (''access-control-allow-origin'', ''https://fund.eastmoney.com'')]
        [''jsonpgz('', ''{});''] Ended \<and>
   relaysCORS [(''content-type'', ''text/javascript''),
        (''access-control-allow-origin'', ''https://fund.eastmoney.com'')]
     (res (handler exampleEnv (request ''GET'' ''/api/fund/161725'' Undefined))) \<and>
   fundTarget (request ''GET'' ''/'' Undefined) = None \<and>
   statusCode (res (handler exampleEnv (request ''GET'' ''/'' Undefined))) = 200 \<and>
   carriesCORS (res (handler exampleEnv (request ''GET'' ''/'' Undefined)))"
proof -
  let ?o = "request ''OPTIONS'' ''/x'' Undefined"
  let ?p = "request ''GET'' ''/api/fund/161725'' Undefined"
  let ?s = "request ''GET'' ''/'' Undefined"
  have o1: "req_method ?o = ''OPTIONS''" by (simp add: request_def)
  have o2: "carriesCORS (res (handler exampleEnv ?o))"
    using cors_on_responses [of ?o exampleEnv] o1 by blast
  have p1: "req_method ?p \<noteq> ''OPTIONS''" by (simp add: request_def)
  have p2: "test_d6 ''161725''" by (simp add: test_d6_def isDigit_def)
  have p3: "pathname ?p = ''/api/fund/'' @ ''161725''" by (simp add: request_def)
  have p4: "fundTarget ?p = Some (snapshotUrl ''161725'')"
    by (rule fundTarget_snapshot [OF p2 p3])
  have p5: "upstream exampleEnv (proxyOptions ?p (snapshotUrl ''161725'')) =
      Responded 200 [(''content-type'', ''text/javascript''),
        (''access-control-allow-origin'', ''https://fund.eastmoney.com'')]
        [''jsonpgz('', ''{});''] Ended"
    by (simp add: exampleEnv_def proxyOptions_def url_parse_snapshot [OF p2])
  have p6: "upstream offlineEnv (proxyOptions ?p (snapshotUrl ''161725'')) =
      ConnectFailed ''connect ECONNREFUSED''"
    by (simp add: offlineEnv_def)
  have p7: "statusCode (res (handler offlineEnv ?p)) = 500 \<and>
      carriesCORS (res (handler offlineEnv ?p))"
    using cors_on_responses [of ?p offlineEnv] p1 p4 p6 by blast
  have p8: "relaysCORS [(''content-type'', ''text/javascript''),
        (''access-control-allow-origin'', ''https://fund.eastmoney.com'')]
      (res (handler exampleEnv ?p))"
    using cors_on_responses [of ?p exampleEnv] p1 p4 p5 by blast
  have s1: "req_method ?s \<noteq> ''OPTIONS''" by (simp add: request_def)
  have s2: "fundTarget ?s = None"
    by (simp add: fundTarget_def request_def startsWith_def)
  have s3: "staticPath exampleEnv ?s = ''/srv/jojo/fund_calculator.html''"
    by (simp add: staticPath_def path_join_def normalize_def normalizeString_def normStep_def
          exampleEnv_def request_def)
  have s4: "fs_access exampleEnv ''/srv/jojo/fund_calculator.html''"
    "fs_readFile exampleEnv ''/srv/jojo/fund_calculator.html'' = Some ''<html>calc</html>''"
    by (simp_all add: exampleEnv_def)
  have s5: "statusCode (res (handler exampleEnv ?s)) = 200"
    unfolding handler_static [OF s1 s2] logged_initial resolveStatic_def Let_def s3
    using s4 by (simp add: serveStaticFile_read)
  have s6: "carriesCORS (res (handler exampleEnv ?s))"
    using cors_on_responses [of ?s exampleEnv] s1 s2 s5 by auto
  show ?thesis
    using o1 o2 p1 p4 p5 p6 p7 p8 s2 s5 s6 by blast
qed

text \<open>
  C6, as stated, fails for one method: the 404 branches give ``File not found'' to
  \<open>res.end\<close> whatever the method, but the response to a HEAD request has no body, so
  a HEAD request for a missing path with an extension gets the 404 head and no body.
\<close>

theorem head_not_found_has_no_body:
  "req_method (request ''HEAD'' ''/missing.png'' Undefined) \<noteq> ''OPTIONS'' \<and>
   fundTarget (request ''HEAD'' ''/missing.png'' Undefined) = None \<and>
   staticPath exampleEnv (request ''HEAD'' ''/missing.png'' Undefined) = ''/srv/jojo/missing.png'' \<and>
   \<not> fs_access exampleEnv ''/srv/jojo/missing.png'' \<and>
   extname ''/srv/jojo/missing.png'' = ''.png'' \<and>
   statusCode (res (handler exampleEnv (request ''HEAD'' ''/missing.png'' Undefined))) = 404 \<and>
   written (res (handler exampleEnv (request ''HEAD'' ''/missing.png'' Undefined))) = []"
proof -
  let ?s = "request ''HEAD'' ''/missing.png'' Undefined"
  have s1: "req_method ?s \<noteq> ''OPTIONS''" by (simp add: request_def)
  have s2: "fundTarget ?s = None"
    by (simp add: fundTarget_def request_def startsWith_def)
  have s3: "staticPath exampleEnv ?s = ''/srv/jojo/missing.png''"
    by (simp add: staticPath_def path_join_def normalize_def normalizeString_def normStep_def
          exampleEnv_def request_def)
  have s4: "extname ''/srv/jojo/missing.png'' = ''.png''"
    by (simp add: extname_def)
  have s5: "\<not> fs_access exampleEnv ''/srv/jojo/missing.png''"
    by (simp add: exampleEnv_def)
  have s6: "statusCode (res (handler exampleEnv ?s)) = 404"
    "written (res (handler exampleEnv ?s)) = []"
    unfolding handler_static [OF s1 s2] logged_initial resolveStatic_def Let_def s3
    using s5 by (simp_all add: s4 notFound_open request_def)
  show ?thesis
    using s1 s2 s3 s4 s5 s6 by blast
qed

text \<open>
  C6, amended. A request that reaches static resolution and whose resolved path does
  not exist: when the path has no extension, existence is checked once more, of the
  path with \<open>.html\<close> appended, and that file is served if it exists (200 with its
  bytes when it can be read) and 404 is answered if it does not; when the path has an
  extension, the answer is 404 with content type \<open>text/plain\<close> and the body
  ``File not found'', and no second path is looked up. Where the method is HEAD the
  status, headers and file-system calls are the same and no body is sent.
\<close>

theorem static_html_fallback:
  assumes "req_method req \<noteq> ''OPTIONS''"
    and "fundTarget req = None"
    and "\<not> fs_access e (staticPath e req)"
  shows "(extname (staticPath e req) = [] \<and> fs_access e (staticPath e req @ ''.html'') \<longrightarrow>
       handler e req =
         serveStaticFile e (staticPath e req @ ''.html'')
           ((console_log (RequestLog (req_method req) (pathname req)) (initial (req_method req)))
              \<lparr> fs_calls := [Access (staticPath e req), Access (staticPath e req @ ''.html'')] \<rparr>) \<and>
       fs_calls (handler e req) =
         [Access (staticPath e req), Access (staticPath e req @ ''.html''),
          ReadFile (staticPath e req @ ''.html'')] \<and>
       (\<forall>data. fs_readFile e (staticPath e req @ ''.html'') = Some data \<longrightarrow>
          statusCode (res (handler e req)) = 200 \<and>
          written (res (handler e req)) = (if req_method req = ''HEAD'' then [] else data))) \<and>
     (extname (staticPath e req) = [] \<and> \<not> fs_access e (staticPath e req @ ''.html'') \<longrightarrow>
       fs_calls (handler e req) =
         [Access (staticPath e req), Access (staticPath e req @ ''.html'')] \<and>
       statusCode (res (handler e req)) = 404 \<and>
       written (res (handler e req)) =
         (if req_method req = ''HEAD'' then [] else ''File not found'')) \<and>
     (extname (staticPath e req) \<noteq> [] \<longrightarrow>
       fs_calls (handler e req) = [Access (staticPath e req)] \<and>
       statusCode (res (handler e req)) = 404 \<and>
       getHeader (res (handler e req)) ''Content-Type'' = Some ''text/plain'' \<and>
       written (res (handler e req)) =
         (if req_method req = ''HEAD'' then [] else ''File not found''))"
proof (intro conjI allI impI)
  assume a: "extname (staticPath e req) = [] \<and> fs_access e (staticPath e req @ ''.html'')"
  with assms(3) show "handler e req =
      serveStaticFile e (staticPath e req @ ''.html'')
        ((console_log (RequestLog (req_method req) (pathname req)) (initial (req_method req)))
           \<lparr> fs_calls := [Access (staticPath e req), Access (staticPath e req @ ''.html'')] \<rparr>)"
    unfolding handler_static [OF assms(1,2)] logged_initial resolveStatic_def Let_def
    by simp
  from a assms(3) show "fs_calls (handler e req) =
      [Access (staticPath e req), Access (staticPath e req @ ''.html''),
       ReadFile (staticPath e req @ ''.html'')]"
    unfolding handler_static [OF assms(1,2)] logged_initial resolveStatic_def Let_def
    by (cases "fs_readFile e (staticPath e req @ ''.html'')")
       (simp_all add: serveStaticFile_read serveStaticFile_unreadable)
  fix data
  assume "fs_readFile e (staticPath e req @ ''.html'') = Some data"
  with a assms(3) show "statusCode (res (handler e req)) = 200"
    and "written (res (handler e req)) = (if req_method req = ''HEAD'' then [] else data)"
    unfolding handler_static [OF assms(1,2)] logged_initial resolveStatic_def Let_def
    by (simp_all add: serveStaticFile_read)
next
  assume a: "extname (staticPath e req) = [] \<and> \<not> fs_access e (staticPath e req @ ''.html'')"
  with assms(3) show "fs_calls (handler e req) =
      [Access (staticPath e req), Access (staticPath e req @ ''.html'')]"
    and "statusCode (res (handler e req)) = 404"
    and "written (res (handler e req)) =
         (if req_method req = ''HEAD'' then [] else ''File not found'')"
    unfolding handler_static [OF assms(1,2)] logged_initial resolveStatic_def Let_def
    by (simp_all add: notFound_open)
next
  assume a: "extname (staticPath e req) \<noteq> []"
  with assms(3) show "fs_calls (handler e req) = [Access (staticPath e req)]"
    and "statusCode (res (handler e req)) = 404"
    and "getHeader (res (handler e req)) ''Content-Type'' = Some ''text/plain''"
    and "written (res (handler e req)) =
         (if req_method req = ''HEAD'' then [] else ''File not found'')"
    unfolding handler_static [OF assms(1,2)] logged_initial resolveStatic_def Let_def
    by (simp_all add: notFound_open getHeader_def lower_names)
qed

theorem static_html_fallback_witness:
  "req_method (request ''GET'' ''/about'' Undefined) \<noteq> ''OPTIONS'' \<and>
   fundTarget (request ''GET'' ''/about'' Undefined) = None \<and>
   staticPath exampleEnv (request ''GET'' ''/about'' Undefined) = ''/srv/jojo/about'' \<and>
   \<not> fs_access exampleEnv ''/srv/jojo/about'' \<and>
   extname ''/srv/jojo/about'' = [] \<and>
   fs_access exampleEnv ''/srv/jojo/about.html'' \<and>
   fs_readFile exampleEnv ''/srv/jojo/about.html'' = Some ''<html>about</html>'' \<and>
   fs_calls (handler exampleEnv (request ''GET'' ''/about'' Undefined)) =
     [Access ''/srv/jojo/about'', Access ''/srv/jojo/about.html'',
      ReadFile ''/srv/jojo/about.html''] \<and>
   statusCode (res (handler exampleEnv (request ''GET'' ''/about'' Undefined))) = 200 \<and>
   written (res (handler exampleEnv (request ''GET'' ''/about'' Undefined))) = ''<html>about</html>'' \<and>
   req_method (request ''GET'' ''/missing.png'' Undefined) \<noteq> ''OPTIONS'' \<and>
   fundTarget (request ''GET'' ''/missing.png'' Undefined) = None \<and>
   staticPath exampleEnv (request ''GET'' ''/missing.png'' Undefined) = ''/srv/jojo/missing.png'' \<and>
   \<not> fs_access exampleEnv ''/srv/jojo/missing.png'' \<and>
   extname ''/srv/jojo/missing.png'' = ''.png'' \<and>
   fs_calls (handler exampleEnv (request ''GET'' ''/missing.png'' Undefined)) =
     [Access ''/srv/jojo/missing.png''] \<and>
   statusCode (res (handler exampleEnv (request ''GET'' ''/missing.png'' Undefined))) = 404 \<and>
   written (res (handler exampleEnv (request ''GET'' ''/missing.png'' Undefined))) =
     ''File not found''"
proof -
  let ?a = "request ''GET'' ''/about'' Undefined"
  let ?m = "request ''GET'' ''/missing.png'' Undefined"
  have a1: "req_method ?a \<noteq> ''OPTIONS''" by (simp add: request_def)
  have ah: "req_method ?a \<noteq> ''HEAD''" by (simp add: request_def)
  have a2: "fundTarget ?a = None" by (simp add: fundTarget_def request_def startsWith_def)
  have a3: "staticPath exampleEnv ?a = ''/srv/jojo/about''"
    by (simp add: staticPath_def path_join_def normalize_def normalizeString_def normStep_def
          exampleEnv_def request_def)
  have a4: "\<not> fs_access exampleEnv ''/srv/jojo/about''" by (simp add: exampleEnv_def)
  have a5: "extname ''/srv/jojo/about'' = []" by (simp add: extname_def)
  have a6: "fs_access exampleEnv ''/srv/jojo/about.html''" by (simp add: exampleEnv_def)
  have a7: "fs_readFile exampleEnv ''/srv/jojo/about.html'' = Some ''<html>about</html>''"
    by (simp add: exampleEnv_def)
  have a67: "extname ''/srv/jojo/about'' = [] \<and>
      fs_access exampleEnv (''/srv/jojo/about'' @ ''.html'')"
    using a5 a6 by simp
  note A = static_html_fallback [of ?a exampleEnv, unfolded a3, OF a1 a2 a4,
      THEN conjunct1, THEN mp, OF a67, THEN conjunct2]
  have a8: "fs_calls (handler exampleEnv ?a) =
     [Access ''/srv/jojo/about'', Access ''/srv/jojo/about.html'',
      ReadFile ''/srv/jojo/about.html'']"
    using A [THEN conjunct1] by simp
  have a9: "statusCode (res (handler exampleEnv ?a)) = 200 \<and>
      written (res (handler exampleEnv ?a)) = ''<html>about</html>''"
    using A [THEN conjunct2, rule_format, of "''<html>about</html>''"] a7 ah by simp
  have m1: "req_method ?m \<noteq> ''OPTIONS''" by (simp add: request_def)
  have mh: "req_method ?m \<noteq> ''HEAD''" by (simp add: request_def)
  have m2: "fundTarget ?m = None" by (simp add: fundTarget_def request_def startsWith_def)
  have m3: "staticPath exampleEnv ?m = ''/srv/jojo/missing.png''"
    by (simp add: staticPath_def path_join_def normalize_def normalizeString_def normStep_def
          exampleEnv_def request_def)
  have m4: "\<not> fs_access exampleEnv ''/srv/jojo/missing.png''" by (simp add: exampleEnv_def)
  have m5: "extname ''/srv/jojo/missing.png'' = ''.png''" by (simp add: extname_def)
  note M = static_html_fallback [of ?m exampleEnv, unfolded m3, OF m1 m2 m4,
      THEN conjunct2, THEN conjunct2]
  have m6: "fs_calls (handler exampleEnv ?m) = [Access ''/srv/jojo/missing.png''] \<and>
      statusCode (res (handler exampleEnv ?m)) = 404 \<and>
      written (res (handler exampleEnv ?m)) = ''File not found''"
    using M m5 mh by simp
  show ?thesis
    using a1 a2 a3 a4 a5 a6 a7 a8 a9 m1 m2 m3 m4 m5 m6 by blast
qed

text \<open>
  C7. With the server in a directory \<open>__dirname\<close> (never the empty string), a request
  for \<open>/\<close> resolves to the same file as a request for \<open>/fund_calculator.html\<close>, makes
  the same file-system calls and gets the same response: status, headers and body.
  When that file exists and can be read, the response is 200 with content type
  \<open>text/html\<close> and the bytes of the file (no body bytes when the method is HEAD).
\<close>

theorem root_is_default_document:
  assumes "dirname e \<noteq> []"
  shows "staticPath e (req\<lparr> pathname := ''/'' \<rparr>) =
       staticPath e (req\<lparr> pathname := ''/fund_calculator.html'' \<rparr>) \<and>
     res (handler e (req\<lparr> pathname := ''/'' \<rparr>)) =
       res (handler e (req\<lparr> pathname := ''/fund_calculator.html'' \<rparr>)) \<and>
     fs_calls (handler e (req\<lparr> pathname := ''/'' \<rparr>)) =
       fs_calls (handler e (req\<lparr> pathname := ''/fund_calculator.html'' \<rparr>)) \<and>
     (\<forall>data. req_method req \<noteq> ''OPTIONS'' \<and>
        fs_access e (staticPath e (req\<lparr> pathname := ''/fund_calculator.html'' \<rparr>)) \<and>
        fs_readFile e (staticPath e (req\<lparr> pathname := ''/fund_calculator.html'' \<rparr>)) = Some data \<longrightarrow>
        statusCode (res (handler e (req\<lparr> pathname := ''/'' \<rparr>))) = 200 \<and>
        getHeader (res (handler e (req\<lparr> pathname := ''/'' \<rparr>))) ''Content-Type'' = Some ''text/html'' \<and>
        written (res (handler e (req\<lparr> pathname := ''/'' \<rparr>))) =
          (if req_method req = ''HEAD'' then [] else data))"
proof -
  let ?root = "req\<lparr> pathname := ''/'' \<rparr>"
  let ?doc = "req\<lparr> pathname := ''/fund_calculator.html'' \<rparr>"
  have same: "staticPath e ?root = staticPath e ?doc"
    using assms by (simp add: staticPath_def path_join_default)
  have ext: "extname (staticPath e ?doc) = ''.html''"
    using assms by (simp add: staticPath_def path_join_default extname_path_join_default)
  have both: "res (handler e ?root) = res (handler e ?doc) \<and>
      fs_calls (handler e ?root) = fs_calls (handler e ?doc)"
  proof (cases "req_method req = ''OPTIONS''")
    case True
    then show ?thesis
      by (simp add: handler_def Let_def logged_initial setCORSHeaders_open writeHead_def
            res_end_def)
  next
    case False
    then have "handler e ?root =
        resolveStatic e ?root (console_log (RequestLog (req_method ?root) (pathname ?root)) (initial (req_method ?root)))"
      by (intro handler_static) (simp_all add: fundTarget_root)
    moreover from False have "handler e ?doc =
        resolveStatic e ?doc (console_log (RequestLog (req_method ?doc) (pathname ?doc)) (initial (req_method ?doc)))"
      by (intro handler_static) (simp_all add: fundTarget_default)
    ultimately show ?thesis
      using resolveStatic_same_path [OF same] by simp
  qed
  have served: "statusCode (res (handler e ?doc)) = 200 \<and>
      getHeader (res (handler e ?doc)) ''Content-Type'' = Some ''text/html'' \<and>
      written (res (handler e ?doc)) = (if req_method req = ''HEAD'' then [] else data)"
    if "req_method req \<noteq> ''OPTIONS''" "fs_access e (staticPath e ?doc)"
      "fs_readFile e (staticPath e ?doc) = Some data" for data
  proof -
    from that(1) have "handler e ?doc =
        resolveStatic e ?doc (console_log (RequestLog (req_method ?doc) (pathname ?doc)) (initial (req_method ?doc)))"
      by (intro handler_static) (simp_all add: fundTarget_default)
    then show ?thesis
      unfolding logged_initial resolveStatic_def Let_def
      using that(2,3)
      by (simp add: serveStaticFile_read ext getHeader_def lower_names mimeTypes_def orElse_def)
  qed
  show ?thesis
    using same both served by simp
qed

theorem root_is_default_document_witness:
  "dirname exampleEnv \<noteq> [] \<and>
   staticPath exampleEnv (request ''GET'' ''/'' Undefined) = ''/srv/jojo/fund_calculator.html'' \<and>
   staticPath exampleEnv (request ''GET'' ''/fund_calculator.html'' Undefined) =
     ''/srv/jojo/fund_calculator.html'' \<and>
   fs_access exampleEnv ''/srv/jojo/fund_calculator.html'' \<and>
   fs_readFile exampleEnv ''/srv/jojo/fund_calculator.html'' = Some ''<html>calc</html>'' \<and>
   res (handler exampleEnv (request ''GET'' ''/'' Undefined)) =
     res (handler exampleEnv (request ''GET'' ''/fund_calculator.html'' Undefined)) \<and>
   statusCode (res (handler exampleEnv (request ''GET'' ''/'' Undefined))) = 200 \<and>
   getHeader (res (handler exampleEnv (request ''GET'' ''/'' Undefined))) ''Content-Type'' =
     Some ''text/html'' \<and>
   written (res (handler exampleEnv (request ''GET'' ''/'' Undefined))) = ''<html>calc</html>''"
proof -
  let ?q = "request ''GET'' ''/x'' Undefined"
  have r: "?q\<lparr> pathname := ''/'' \<rparr> = request ''GET'' ''/'' Undefined"
    "?q\<lparr> pathname := ''/fund_calculator.html'' \<rparr> = request ''GET'' ''/fund_calculator.html'' Undefined"
    by (simp_all add: request_def)
  have h: "dirname exampleEnv \<noteq> []" by (simp add: exampleEnv_def)
  have m: "req_method ?q \<noteq> ''OPTIONS''" by (simp add: request_def)
  have nh: "req_method ?q \<noteq> ''HEAD''" by (simp add: request_def)
  have p: "staticPath exampleEnv (request ''GET'' ''/fund_calculator.html'' Undefined) =
      ''/srv/jojo/fund_calculator.html''"
    by (simp add: staticPath_def path_join_def normalize_def normalizeString_def normStep_def
          exampleEnv_def request_def)
  have a: "fs_access exampleEnv ''/srv/jojo/fund_calculator.html''"
    by (simp add: exampleEnv_def)
  have f: "fs_readFile exampleEnv ''/srv/jojo/fund_calculator.html'' = Some ''<html>calc</html>''"
    by (simp add: exampleEnv_def)
  note T = root_is_default_document [OF h, of ?q, unfolded r p]
  have t1: "staticPath exampleEnv (request ''GET'' ''/'' Undefined) = ''/srv/jojo/fund_calculator.html''"
    using T [THEN conjunct1] .
  have t2: "res (handler exampleEnv (request ''GET'' ''/'' Undefined)) =
      res (handler exampleEnv (request ''GET'' ''/fund_calculator.html'' Undefined))"
    using T [THEN conjunct2, THEN conjunct1] .
  have t4: "statusCode (res (handler exampleEnv (request ''GET'' ''/'' Undefined))) = 200 \<and>
      getHeader (res (handler exampleEnv (request ''GET'' ''/'' Undefined))) ''Content-Type'' =
        Some ''text/html'' \<and>
      written (res (handler exampleEnv (request ''GET'' ''/'' Undefined))) = ''<html>calc</html>''"
    using T [THEN conjunct2, THEN conjunct2, THEN conjunct2, rule_format, of "''<html>calc</html>''"]
      m a f nh by simp
  show ?thesis
    using h t1 p a f t2 t4 by blast
qed

text \<open>
  C8, as stated, fails for one method: the handler gives the JSON body to \<open>res.end\<close>
  whatever the method, but the response to a HEAD request has no body, so the client
  of a HEAD request gets the 500 head and no JSON.
\<close>

theorem head_failure_has_no_body:
  "req_method (request ''HEAD'' ''/api/fund/161725'' Undefined) \<noteq> ''OPTIONS'' \<and>
   fundTarget (request ''HEAD'' ''/api/fund/161725'' Undefined) = Some (snapshotUrl ''161725'') \<and>
   upstream offlineEnv
     (proxyOptions (request ''HEAD'' ''/api/fund/161725'' Undefined) (snapshotUrl ''161725'')) =
     ConnectFailed ''connect ECONNREFUSED'' \<and>
   statusCode (res (handler offlineEnv (request ''HEAD'' ''/api/fund/161725'' Undefined))) = 500 \<and>
   written (res (handler offlineEnv (request ''HEAD'' ''/api/fund/161725'' Undefined))) = []"
proof -
  let ?p = "request ''HEAD'' ''/api/fund/161725'' Undefined"
  have p1: "req_method ?p \<noteq> ''OPTIONS''" by (simp add: request_def)
  have p2: "test_d6 ''161725''" by (simp add: test_d6_def isDigit_def)
  have p3: "pathname ?p = ''/api/fund/'' @ ''161725''" by (simp add: request_def)
  have p4: "fundTarget ?p = Some (snapshotUrl ''161725'')"
    by (rule fundTarget_snapshot [OF p2 p3])
  have p5: "upstream offlineEnv (proxyOptions ?p (snapshotUrl ''161725'')) =
      ConnectFailed ''connect ECONNREFUSED''"
    by (simp add: offlineEnv_def)
  have p6: "statusCode (res (handler offlineEnv ?p)) = 500"
    "written (res (handler offlineEnv ?p)) = []"
    unfolding handler_proxied [OF p1 p4] proxy_connect_failed [OF p5]
    by (simp_all add: request_def)
  show ?thesis
    using p1 p4 p5 p6 by blast
qed

text \<open>
  C8, amended. When the upstream request of a proxied request fails before any
  response (so before the head has been sent to the client), the client gets status
  500 with \<open>Content-Type: application/json\<close> and the CORS headers, and, unless the
  method is HEAD, the body
  \<open>JSON.stringify({error: <fixed text>, message: <the error's message>})\<close>, whose
  \<open>message\<close> value reads back as the error's text; a HEAD request gets the same head
  and no body. The response is ended, nothing is thrown, and exactly one upstream
  request was issued: the failure is not retried.
\<close>

theorem upstream_failure_500:
  assumes "req_method req \<noteq> ''OPTIONS''"
    and "fundTarget req = Some t"
    and "upstream e (proxyOptions req t) = ConnectFailed message"
  shows "statusCode (res (handler e req)) = 500 \<and>
     getHeader (res (handler e req)) ''Content-Type'' = Some ''application/json'' \<and>
     carriesCORS (res (handler e req)) \<and>
     written (res (handler e req)) =
       (if req_method req = ''HEAD'' then []
        else JSON_stringify [(''error'', proxyFailedText), (''message'', message)]) \<and>
     JSON_stringify [(''error'', proxyFailedText), (''message'', message)] =
       [CHR ''{'', CHR 0x22] @ ''error'' @ [CHR 0x22, CHR '':'', CHR 0x22] @ proxyFailedText @
       [CHR 0x22, CHR '','', CHR 0x22] @ ''message'' @ [CHR 0x22, CHR '':''] @
       quoteJSONString message @ ''}'' \<and>
     unquoteJSONString (quoteJSONString message) = Some message \<and>
     finished (res (handler e req)) \<and>
     thrown (handler e req) = None \<and>
     console (handler e req) =
       [RequestLog (req_method req) (pathname req), ProxyErrorLog message] \<and>
     requests (handler e req) = [proxyOptions req t]"
proof -
  have body: "JSON_stringify [(''error'', proxyFailedText), (''message'', message)] =
       [CHR ''{'', CHR 0x22] @ ''error'' @ [CHR 0x22, CHR '':'', CHR 0x22] @ proxyFailedText @
       [CHR 0x22, CHR '','', CHR 0x22] @ ''message'' @ [CHR 0x22, CHR '':''] @
       quoteJSONString message @ ''}''"
    by (simp add: JSON_stringify_def quoteJSONString_def quoteJSONChar_def proxyFailedText_def)
  have rest: "statusCode (res (handler e req)) = 500 \<and>
     getHeader (res (handler e req)) ''Content-Type'' = Some ''application/json'' \<and>
     carriesCORS (res (handler e req)) \<and>
     written (res (handler e req)) =
       (if req_method req = ''HEAD'' then []
        else JSON_stringify [(''error'', proxyFailedText), (''message'', message)]) \<and>
     finished (res (handler e req)) \<and>
     thrown (handler e req) = None \<and>
     console (handler e req) =
       [RequestLog (req_method req) (pathname req), ProxyErrorLog message] \<and>
     requests (handler e req) = [proxyOptions req t]"
    unfolding handler_proxied [OF assms(1,2)] proxy_connect_failed [OF assms(3)]
    by (simp add: carriesCORS_def getHeader_def lower_names)
  show ?thesis
    using rest body unquote_quote [of message] by blast
qed

theorem upstream_failure_500_witness:
  "req_method (request ''GET'' ''/api/fund/161725'' Undefined) \<noteq> ''OPTIONS'' \<and>
   fundTarget (request ''GET'' ''/api/fund/161725'' Undefined) = Some (snapshotUrl ''161725'') \<and>
   upstream offlineEnv
     (proxyOptions (request ''GET'' ''/api/fund/161725'' Undefined) (snapshotUrl ''161725'')) =
     ConnectFailed ''connect ECONNREFUSED'' \<and>
   statusCode (res (handler offlineEnv (request ''GET'' ''/api/fund/161725'' Undefined))) = 500 \<and>
   written (res (handler offlineEnv (request ''GET'' ''/api/fund/161725'' Undefined))) =
     [CHR ''{'', CHR 0x22] @ ''error'' @ [CHR 0x22, CHR '':'', CHR 0x22] @ proxyFailedText @
     [CHR 0x22, CHR '','', CHR 0x22] @ ''message'' @ [CHR 0x22, CHR '':'', CHR 0x22] @
     ''connect ECONNREFUSED'' @ [CHR 0x22, CHR ''}''] \<and>
   length (requests (handler offlineEnv (request ''GET'' ''/api/fund/161725'' Undefined))) = 1"
proof -
  let ?p = "request ''GET'' ''/api/fund/161725'' Undefined"
  have p1: "req_method ?p \<noteq> ''OPTIONS''" by (simp add: request_def)
  have nh: "req_method ?p \<noteq> ''HEAD''" by (simp add: request_def)
  have p2: "test_d6 ''161725''" by (simp add: test_d6_def isDigit_def)
  have p3: "pathname ?p = ''/api/fund/'' @ ''161725''" by (simp add: request_def)
  have p4: "fundTarget ?p = Some (snapshotUrl ''161725'')"
    by (rule fundTarget_snapshot [OF p2 p3])
  have p5: "upstream offlineEnv (proxyOptions ?p (snapshotUrl ''161725'')) =
      ConnectFailed ''connect ECONNREFUSED''"
    by (simp add: offlineEnv_def)
  have q: "quoteJSONString ''connect ECONNREFUSED'' =
      [CHR 0x22] @ ''connect ECONNREFUSED'' @ [CHR 0x22]"
    by (simp add: quoteJSONString_def quoteJSONChar_def)
  note T = upstream_failure_500 [OF p1 p4 p5]
  have t1: "statusCode (res (handler offlineEnv ?p)) = 500"
    using T by blast
  have t2a: "written (res (handler offlineEnv ?p)) =
      JSON_stringify [(''error'', proxyFailedText), (''message'', ''connect ECONNREFUSED'')]"
    using T [THEN conjunct2, THEN conjunct2, THEN conjunct2, THEN conjunct1] nh
    by (simp only: if_False)
  have t2: "written (res (handler offlineEnv ?p)) =
     [CHR ''{'', CHR 0x22] @ ''error'' @ [CHR 0x22, CHR '':'', CHR 0x22] @ proxyFailedText @
     [CHR 0x22, CHR '','', CHR 0x22] @ ''message'' @ [CHR 0x22, CHR '':'', CHR 0x22] @
     ''connect ECONNREFUSED'' @ [CHR 0x22, CHR ''}'']"
    unfolding t2a
      T [THEN conjunct2, THEN conjunct2, THEN conjunct2, THEN conjunct2, THEN conjunct1]
    by (simp add: q)
  have t3: "length (requests (handler offlineEnv ?p)) = 1"
    using T by simp
  show ?thesis
    using p1 p4 p5 t1 t2 t3 by blast
qed

text \<open>
  C9, on the code: an upstream failure after streaming to the client has begun. The
  history host of the example delivers the head and one chunk and then fails. The
  \<open>error\<close> handler logs the error and then throws, so the error is not ``only
  logged'' and the response stream does not ``simply end'': the exception is uncaught
  and \<open>res.end\<close> is never called. No further status or header reaches the client,
  and the partial content stays as delivered.
\<close>

theorem midstream_failure_throws:
  "upstream exampleEnv
     (proxyOptions (request ''GET'' ''/api/fund/history/161725'' Undefined)
        (historyUrl ''161725'' 120)) =
     Responded 200 [(''content-type'', ''application/json'')]
       [[CHR ''{'', CHR 0x22] @ ''Datas'' @ [CHR 0x22, CHR '':'', CHR ''['']]
       (Failed ''read ECONNRESET'') \<and>
   console (handler exampleEnv (request ''GET'' ''/api/fund/history/161725'' Undefined)) =
     [RequestLog ''GET'' ''/api/fund/history/161725'', ProxyErrorLog ''read ECONNRESET''] \<and>
   thrown (handler exampleEnv (request ''GET'' ''/api/fund/history/161725'' Undefined)) =
     Some ERR_HTTP_HEADERS_SENT \<and>
   finished (res (handler exampleEnv (request ''GET'' ''/api/fund/history/161725'' Undefined))) =
     False \<and>
   statusCode (res (handler exampleEnv (request ''GET'' ''/api/fund/history/161725'' Undefined))) =
     200 \<and>
   written (res (handler exampleEnv (request ''GET'' ''/api/fund/history/161725'' Undefined))) =
     [CHR ''{'', CHR 0x22] @ ''Datas'' @ [CHR 0x22, CHR '':'', CHR ''['']"
proof -
  let ?h = "request ''GET'' ''/api/fund/history/161725'' Undefined"
  have h1: "req_method ?h \<noteq> ''OPTIONS''" by (simp add: request_def)
  have h2: "test_d6 ''161725''" by (simp add: test_d6_def isDigit_def)
  have h3: "pathname ?h = ''/api/fund/history/'' @ ''161725''" by (simp add: request_def)
  have h4: "fundTarget ?h = Some (historyUrl ''161725'' 120)"
    using fundTarget_history [OF h2 h3]
    by (simp add: request_def parseInt_undefined pageSizeOf_def)
  have h5: "upstream exampleEnv (proxyOptions ?h (historyUrl ''161725'' 120)) =
      Responded 200 [(''content-type'', ''application/json'')]
        [[CHR ''{'', CHR 0x22] @ ''Datas'' @ [CHR 0x22, CHR '':'', CHR ''['']]
        (Failed ''read ECONNRESET'')"
    by (simp add: exampleEnv_def proxyOptions_def url_parse_history [OF h2])
  show ?thesis
    using midstream_failure [OF h1 h4 h5, of] h5
    by (simp add: request_def noBodyStatus_def)
qed

text \<open>
  C10. Both target URLs the router builds start with \<open>https\<close>; so for every target it
  hands to the proxy forwarder the module chosen is \<open>https\<close> and the port is the
  default 443 (the URL carries no port of its own), and every upstream request a
  request causes is an \<open>https\<close> request to port 443.
\<close>

theorem proxy_targets_https:
  "startsWith (snapshotUrl c) ''https'' \<and>
   startsWith (historyUrl c n) ''https'' \<and>
   (\<forall>t. fundTarget req = Some t \<longrightarrow>
      startsWith t ''https'' \<and>
      up_protocol (proxyOptions req t) = Https \<and>
      up_port (proxyOptions req t) = Default 443) \<and>
   (\<forall>r \<in> set (requests (handler e req)).
      up_protocol r = Https \<and> up_port r = Default 443)"
proof -
  have target: "startsWith t ''https'' \<and>
      up_protocol (proxyOptions req t) = Https \<and>
      up_port (proxyOptions req t) = Default 443" if "fundTarget req = Some t" for t
  proof -
    from fundTarget_valid [OF that] obtain c where c: "test_d6 c"
      and t: "t = snapshotUrl c \<or> (\<exists>n. t = historyUrl c n)" by blast
    from t show ?thesis
    proof
      assume "t = snapshotUrl c"
      then show ?thesis
        by (simp add: proxyOptions_def startsWith_https_snapshot url_parse_snapshot [OF c])
    next
      assume "\<exists>n. t = historyUrl c n"
      then obtain n where "t = historyUrl c n" ..
      then show ?thesis
        by (simp add: proxyOptions_def startsWith_https_history url_parse_history [OF c])
    qed
  qed
  have issued: "up_protocol r = Https \<and> up_port r = Default 443"
    if "r \<in> set (requests (handler e req))" for r
  proof (cases "req_method req = ''OPTIONS''")
    case True
    with that show ?thesis by (simp add: handler_def Let_def)
  next
    case False
    show ?thesis
    proof (cases "fundTarget req")
      case None
      with that False show ?thesis by (simp add: handler_static)
    next
      case (Some t)
      with that False have "r = proxyOptions req t"
        by (simp add: handler_proxied requests_proxyRequest)
      with target [OF Some] show ?thesis by simp
    qed
  qed
  show ?thesis
    using target issued by (simp add: startsWith_https_snapshot startsWith_https_history)
qed

theorem proxy_targets_https_witness:
  "fundTarget (request ''POST'' ''/api/fund/history/161725'' (Str ''90'')) =
     Some (historyUrl ''161725'' 90) \<and>
   startsWith (historyUrl ''161725'' 90) ''https'' \<and>
   up_protocol (proxyOptions (request ''POST'' ''/api/fund/history/161725'' (Str ''90''))
     (historyUrl ''161725'' 90)) = Https \<and>
   up_port (proxyOptions (request ''POST'' ''/api/fund/history/161725'' (Str ''90''))
     (historyUrl ''161725'' 90)) = Default 443 \<and>
   requests (handler exampleEnv (request ''POST'' ''/api/fund/history/161725'' (Str ''90''))) =
     [proxyOptions (request ''POST'' ''/api/fund/history/161725'' (Str ''90''))
        (historyUrl ''161725'' 90)] \<and>
   list_all (\<lambda>r. up_protocol r = Https \<and> up_port r = Default 443)
     (requests (handler exampleEnv (request ''POST'' ''/api/fund/history/161725'' (Str ''90''))))"
proof -
  let ?h = "request ''POST'' ''/api/fund/history/161725'' (Str ''90'')"
  have h1: "req_method ?h \<noteq> ''OPTIONS''" by (simp add: request_def)
  have h2: "test_d6 ''161725''" by (simp add: test_d6_def isDigit_def)
  have h3: "pathname ?h = ''/api/fund/history/'' @ ''161725''" by (simp add: request_def)
  have days: "parseInt ''90'' = Finite 90"
    by (simp add: parseInt_def trimStart.simps whiteSpace_def startsWith_def isDigit_def
          digitsValue_def digitVal_def)
  have h4: "fundTarget ?h = Some (historyUrl ''161725'' 90)"
    using fundTarget_history [OF h2 h3]
    by (simp add: request_def days pageSizeOf_def)
  have h5: "requests (handler exampleEnv ?h) = [proxyOptions ?h (historyUrl ''161725'' 90)]"
    by (simp add: handler_proxied [OF h1 h4] requests_proxyRequest)
  note T = proxy_targets_https [of "''161725''" 90 ?h exampleEnv]
  have t1: "startsWith (historyUrl ''161725'' 90) ''https''"
    using T by blast
  have t2: "up_protocol (proxyOptions ?h (historyUrl ''161725'' 90)) = Https \<and>
      up_port (proxyOptions ?h (historyUrl ''161725'' 90)) = Default 443"
    using T h4 by blast
  have t3: "list_all (\<lambda>r. up_protocol r = Https \<and> up_port r = Default 443)
      (requests (handler exampleEnv ?h))"
    using T by (simp add: list_all_iff)
  show ?thesis
    using h4 h5 t1 t2 t3 by blast
qed

end
